theory Spec2Isabelle
  imports Main "HOL-Library.Word" "HOL-Library.Sublist"
begin

unbundle bit_operations_syntax

section \<open>The LP5569 boot-LED command over a bit-banged I2C bus\<close>

text \<open>
  The development embeds the I2C bit-bang driver (\<^verbatim>\<open>i2c_bitbang\<close>) and the LP5569
  command (\<^verbatim>\<open>lp5569\<close>) of \<^verbatim>\<open>cmd/gpio_drive_strength.c\<close>. The C functions act
  on the GPIO pins, wait, and print; here they pass a \<open>world\<close> along: the log of
  every call of an external primitive, in the order of the calls, and the lines printed
  on the console. What an external primitive returns is decided by the environment
  \<open>extern\<close>, as a function of the log up to and including that call, so that the
  theorems hold for every behaviour of the pins and of the chip.

  A C \<^verbatim>\<open>int\<close> is an \<open>int\<close> here: the only arithmetic on one is \<^verbatim>\<open>2 * delay\<close>, and
  the delay that \<^verbatim>\<open>i2c_init\<close> sets is 5. A \<^verbatim>\<open>uint8_t\<close> is an 8-bit word and the tape
  index, a \<^verbatim>\<open>uint32_t\<close>, a 32-bit word. The pad-control command
  \<^verbatim>\<open>gpio_drive_strength\<close> of the same file does not touch the bus and is left out, and so
  is \<^verbatim>\<open>do_lp5569_error\<close>, which calls \<^verbatim>\<open>lp5569_cmd\<close> and then never returns.
\<close>

subsection \<open>Data\<close>

type_synonym u8 = "8 word"
type_synonym u32 = "32 word"

text \<open>
  The first seven events are calls of primitives that the file does not define
  (\<^verbatim>\<open>gpio_request\<close>, \<^verbatim>\<open>gpio_free\<close>, \<^verbatim>\<open>gpio_direction_output\<close>,
  \<^verbatim>\<open>gpio_direction_input\<close>, \<^verbatim>\<open>gpio_get_value\<close>, \<^verbatim>\<open>udelay\<close>,
  \<^verbatim>\<open>cmd_process_error\<close>), with their arguments. The \<open>Call_f\<close> events record that
  the function \<open>f\<close> of the file was entered, with its arguments: they change nothing of
  what the function does, and let a property speak of the operations that were issued.
\<close>

datatype event =
    Gpio_request int string
  | Gpio_free int
  | Gpio_direction_output int int
  | Gpio_direction_input int
  | Gpio_get_value int
  | Udelay int
  | Cmd_process_error int
  | Call_i2c_start
  | Call_i2c_stop
  | Call_i2c_write_bit u8
  | Call_i2c_read_bit
  | Call_i2c_sda_high
  | Call_i2c_write_byte u8
  | Call_i2c_set_register u8 u8 u8
  | Call_lp5569_init
  | Call_lp5569_run_program "u8 list" u8 "u8 list" u8
  | Call_lp5569_play_tape u32

record world =
  log :: "event list"
  console :: "(string \<times> int list) list"

text \<open>
  \<open>reply\<close> is the value an external primitive returns, given the log that ends with
  its call. \<open>EINVAL\<close> is the constant of \<^verbatim>\<open>errno.h\<close>, which is not part of the
  file.
\<close>

record extern =
  reply :: "event list \<Rightarrow> int"
  EINVAL :: int

text \<open>\<^verbatim>\<open>struct gpio_i2c\<close>. Its three function pointers are assigned once, in
  \<^verbatim>\<open>i2c_init\<close>, to the static functions \<^verbatim>\<open>get_sda\<close>, \<^verbatim>\<open>set_sda\<close> and
  \<^verbatim>\<open>set_scl\<close>; a call through a pointer is modelled as a call of that function.\<close>

record gpio_i2c =
  scl :: int
  sda :: int
  delay :: int

subsection \<open>External primitives\<close>

definition mark :: "event \<Rightarrow> world \<Rightarrow> world" where
  "mark e w = w\<lparr>log := log w @ [e]\<rparr>"

definition extcall :: "extern \<Rightarrow> event \<Rightarrow> world \<Rightarrow> int \<times> world" where
  "extcall env e w = (let l = log w @ [e] in (reply env l, w\<lparr>log := l\<rparr>))"

text \<open>\<^verbatim>\<open>printf\<close>: the format string and the values of its arguments.\<close>

definition printf :: "string \<Rightarrow> int list \<Rightarrow> world \<Rightarrow> world" where
  "printf fmt args w = w\<lparr>console := console w @ [(fmt, args)]\<rparr>"

definition udelay :: "int \<Rightarrow> world \<Rightarrow> world" where
  "udelay usec w = mark (Udelay usec) w"

definition gpio_request :: "extern \<Rightarrow> int \<Rightarrow> string \<Rightarrow> world \<Rightarrow> int \<times> world" where
  "gpio_request env gpio label w = extcall env (Gpio_request gpio label) w"

definition gpio_free :: "extern \<Rightarrow> int \<Rightarrow> world \<Rightarrow> int \<times> world" where
  "gpio_free env gpio w = extcall env (Gpio_free gpio) w"

definition gpio_direction_output :: "extern \<Rightarrow> int \<Rightarrow> int \<Rightarrow> world \<Rightarrow> int \<times> world" where
  "gpio_direction_output env gpio v w = extcall env (Gpio_direction_output gpio v) w"

definition gpio_direction_input :: "extern \<Rightarrow> int \<Rightarrow> world \<Rightarrow> int \<times> world" where
  "gpio_direction_input env gpio w = extcall env (Gpio_direction_input gpio) w"

definition gpio_get_value :: "extern \<Rightarrow> int \<Rightarrow> world \<Rightarrow> int \<times> world" where
  "gpio_get_value env gpio w = extcall env (Gpio_get_value gpio) w"

definition cmd_process_error :: "extern \<Rightarrow> int \<Rightarrow> world \<Rightarrow> int \<times> world" where
  "cmd_process_error env err w = extcall env (Cmd_process_error err) w"

subsection \<open>i2c bitbang\<close>

definition SDA_PIN :: int where "SDA_PIN = 2"
definition SCL_PIN :: int where "SCL_PIN = 3"

definition gpio_write :: "extern \<Rightarrow> int \<Rightarrow> int \<Rightarrow> world \<Rightarrow> int \<times> world" where
  "gpio_write env gpio b w =
     (case gpio_direction_output env gpio b w of (ret, w) \<Rightarrow>
        if ret \<noteq> 0
        then (ret, printf ''gpio: failed to set gpio %d: %d\<newline>'' [gpio, ret] w)
        else (0, w))"

definition gpio_read :: "extern \<Rightarrow> int \<Rightarrow> world \<Rightarrow> int \<times> world" where
  "gpio_read env gpio w =
     (case gpio_direction_input env gpio w of (ret, w) \<Rightarrow>
        if ret \<noteq> 0
        then (ret, printf ''gpio: failed to get %d value: %d\<newline>'' [gpio, ret] w)
        else (case gpio_get_value env gpio w of (ret, w) \<Rightarrow>
          if ret \<noteq> 0 \<and> ret \<noteq> 1
          then (- EINVAL env, printf ''gpio: invalid value for %d: %d\<newline>'' [gpio, ret] w)
          else (ret, w)))"

definition get_sda :: "extern \<Rightarrow> gpio_i2c \<Rightarrow> world \<Rightarrow> int \<times> world" where
  "get_sda env bus w = gpio_read env (sda bus) w"

definition set_sda :: "extern \<Rightarrow> gpio_i2c \<Rightarrow> int \<Rightarrow> world \<Rightarrow> world" where
  "set_sda env bus b w = snd (gpio_write env (sda bus) b w)"

definition set_scl :: "extern \<Rightarrow> gpio_i2c \<Rightarrow> int \<Rightarrow> world \<Rightarrow> world" where
  "set_scl env bus b w = snd (gpio_write env (scl bus) b w)"

definition i2c_start :: "extern \<Rightarrow> gpio_i2c \<Rightarrow> world \<Rightarrow> world" where
  "i2c_start env bus w =
     (let w = mark Call_i2c_start w;
          d = delay bus;
          w = udelay d w;
          w = set_sda env bus 1 w;
          w = udelay d w;
          w = set_scl env bus 1 w;
          w = udelay d w;
          w = set_sda env bus 0 w;
          w = udelay d w
      in w)"

definition i2c_stop :: "extern \<Rightarrow> gpio_i2c \<Rightarrow> world \<Rightarrow> world" where
  "i2c_stop env bus w =
     (let w = mark Call_i2c_stop w;
          d = delay bus;
          w = set_scl env bus 0 w;
          w = udelay d w;
          w = set_sda env bus 0 w;
          w = udelay d w;
          w = set_scl env bus 1 w;
          w = udelay d w;
          w = set_sda env bus 1 w;
          w = udelay d w
      in w)"

text \<open>The parameter \<^verbatim>\<open>bit\<close> is a \<^verbatim>\<open>uint8_t\<close>; \<^verbatim>\<open>set_sda\<close> takes an
  \<^verbatim>\<open>int\<close>, so the byte is passed on as its unsigned value.\<close>

definition i2c_write_bit :: "extern \<Rightarrow> gpio_i2c \<Rightarrow> u8 \<Rightarrow> world \<Rightarrow> world" where
  "i2c_write_bit env bus b w =
     (let w = mark (Call_i2c_write_bit b) w;
          d = delay bus;
          w = set_scl env bus 0 w;
          w = udelay d w;
          w = set_sda env bus (uint b) w;
          w = udelay d w;
          w = set_scl env bus 1 w;
          w = udelay (2 * d) w
      in w)"

definition i2c_read_bit :: "extern \<Rightarrow> gpio_i2c \<Rightarrow> world \<Rightarrow> int \<times> world" where
  "i2c_read_bit env bus w =
     (let w = mark Call_i2c_read_bit w;
          d = delay bus;
          w = set_scl env bus 1 w;
          w = udelay d w
      in case get_sda env bus w of (v, w) \<Rightarrow>
       (let w = udelay d w;
            w = set_scl env bus 0 w;
            w = udelay (2 * d) w
        in (v, w)))"

definition i2c_sda_high :: "extern \<Rightarrow> gpio_i2c \<Rightarrow> world \<Rightarrow> world" where
  "i2c_sda_high env bus w =
     (let w = mark Call_i2c_sda_high w;
          d = delay bus;
          w = set_scl env bus 0 w;
          w = udelay d w;
          w = set_sda env bus 1 w;
          w = udelay d w
      in snd (get_sda env bus w))"

text \<open>The loop \<^verbatim>\<open>for (j = 0; j < 8; j++) { i2c_write_bit(bus, data & 0x80); data <<= 1; }\<close>
  of \<^verbatim>\<open>i2c_write_byte\<close>, from the counter \<open>j\<close> on. \<^verbatim>\<open>data\<close> is a
  \<^verbatim>\<open>uint8_t\<close>: the shift drops the top bit.\<close>

function i2c_write_byte_loop ::
  "extern \<Rightarrow> gpio_i2c \<Rightarrow> nat \<Rightarrow> u8 \<Rightarrow> world \<Rightarrow> u8 \<times> world" where
  "i2c_write_byte_loop env bus j data w =
     (if j < 8
      then i2c_write_byte_loop env bus (j + 1) (push_bit 1 data)
             (i2c_write_bit env bus (data AND 0x80) w)
      else (data, w))"
  by pat_completeness auto
termination
  by (relation "measure (\<lambda>(env, bus, j, data, w). 8 - j)") auto

declare i2c_write_byte_loop.simps [simp del]

definition i2c_write_byte :: "extern \<Rightarrow> gpio_i2c \<Rightarrow> u8 \<Rightarrow> world \<Rightarrow> int \<times> world" where
  "i2c_write_byte env bus data w =
     (let w = mark (Call_i2c_write_byte data) w;
          d = delay bus
      in case i2c_write_byte_loop env bus 0 data w of (data, w) \<Rightarrow>
       (let w = udelay d w;
            w = i2c_sda_high env bus w
        in case i2c_read_bit env bus w of (nack, w) \<Rightarrow> (nack, w)))"

text \<open>\<^verbatim>\<open>i2c_init\<close> fills the handle and requests the two pins.\<close>

definition i2c_init :: "extern \<Rightarrow> world \<Rightarrow> int \<times> gpio_i2c \<times> world" where
  "i2c_init env w =
     (let bus = \<lparr>scl = SCL_PIN, sda = SDA_PIN, delay = 5\<rparr>
      in case gpio_request env (scl bus) ''cmd_gpio'' w of (ret, w) \<Rightarrow>
        if ret \<noteq> 0
        then (ret, bus, printf ''gpio: requesting SCL failed: %d\<newline>'' [ret] w)
        else (case gpio_request env (sda bus) ''cmd_gpio'' w of (ret, w) \<Rightarrow>
          if ret \<noteq> 0
          then (let w = snd (gpio_free env (scl bus) w)
                in (ret, bus, printf ''gpio: requesting SDA failed: %d\<newline>'' [ret] w))
          else (0, bus, w)))"

definition i2c_deinit :: "extern \<Rightarrow> gpio_i2c \<Rightarrow> world \<Rightarrow> int \<times> world" where
  "i2c_deinit env bus w =
     (case gpio_free env (scl bus) w of (ret, w) \<Rightarrow>
        if ret \<noteq> 0
        then (ret, printf ''gpio: failed to free SCL\<newline>'' [] w)
        else (case gpio_free env (sda bus) w of (ret, w) \<Rightarrow>
          if ret \<noteq> 0
          then (ret, printf ''gpio: failed to free SDA\<newline>'' [] w)
          else (0, w)))"

definition i2c_set_register ::
  "extern \<Rightarrow> gpio_i2c \<Rightarrow> u8 \<Rightarrow> u8 \<Rightarrow> u8 \<Rightarrow> world \<Rightarrow> int \<times> world" where
  "i2c_set_register env bus addr reg val w =
     (let w = mark (Call_i2c_set_register addr reg val) w;
          w = i2c_start env bus w
      in case i2c_write_byte env bus addr w of (ret, w) \<Rightarrow>
        if ret \<noteq> 0
        then (let w = printf ''i2c: writing address %02X failed: %d\<newline>'' [uint addr, ret] w;
                  w = i2c_stop env bus w
              in (- 1, w))
        else (case i2c_write_byte env bus reg w of (ret, w) \<Rightarrow>
          if ret \<noteq> 0
          then (let w = printf ''i2c: Writing register %u failed: %d\<newline>'' [uint reg, ret] w;
                    w = i2c_stop env bus w
                in (- 1, w))
          else (case i2c_write_byte env bus val w of (ret, w) \<Rightarrow>
            if ret \<noteq> 0
            then (let w = printf ''Writing I2C value failed\<newline>'' [] w;
                      w = i2c_stop env bus w
                  in (- 1, w))
            else (let w = i2c_stop env bus w in (0, w)))))"

subsection \<open>LP5569\<close>

definition LP5569_MAX_PROGRAM_LEN :: nat where "LP5569_MAX_PROGRAM_LEN = 32"
definition LP5569_MEM_LEDMUX_LOCATION :: u8 where "LP5569_MEM_LEDMUX_LOCATION = 0x10"
definition LP5569_I2C_ADDR :: u8 where "LP5569_I2C_ADDR = 0x64"
definition LP5569_REG_CONFIG :: u8 where "LP5569_REG_CONFIG = 0x00"
definition LP5569_REG_MISC :: u8 where "LP5569_REG_MISC = 0x2F"
definition LP5569_REG_RESET :: u8 where "LP5569_REG_RESET = 0x3F"
definition LP5569_REG_ENGINE1_PROG_START :: u8 where "LP5569_REG_ENGINE1_PROG_START = 0x4B"
definition LP5569_REG_LED_ENGINE_CONTROL1 :: u8 where "LP5569_REG_LED_ENGINE_CONTROL1 = 0x01"
definition LP5569_REG_LED_ENGINE_CONTROL2 :: u8 where "LP5569_REG_LED_ENGINE_CONTROL2 = 0x02"
definition LP5569_REG_PROG_MEM_PAGE_SELECT :: u8 where "LP5569_REG_PROG_MEM_PAGE_SELECT = 0x4F"
definition LP5569_REG_PROGRAM_MEM_00 :: u8 where "LP5569_REG_PROGRAM_MEM_00 = 0x50"
definition LP5569_REG_LED0_CURRENT :: u8 where "LP5569_REG_LED0_CURRENT = 0x22"
definition LP5569_REG_LED1_CURRENT :: u8 where "LP5569_REG_LED1_CURRENT = 0x23"
definition LP5569_REG_LED2_CURRENT :: u8 where "LP5569_REG_LED2_CURRENT = 0x24"
definition LP5569_REG_LED3_CURRENT :: u8 where "LP5569_REG_LED3_CURRENT = 0x25"
definition LP5569_REG_LED4_CURRENT :: u8 where "LP5569_REG_LED4_CURRENT = 0x26"
definition LP5569_REG_LED5_CURRENT :: u8 where "LP5569_REG_LED5_CURRENT = 0x27"
definition LP5569_REG_LED6_CURRENT :: u8 where "LP5569_REG_LED6_CURRENT = 0x28"
definition LP5569_REG_LED7_CURRENT :: u8 where "LP5569_REG_LED7_CURRENT = 0x29"
definition LP5569_REG_LED8_CURRENT :: u8 where "LP5569_REG_LED8_CURRENT = 0x2A"
definition RED_CURRENT :: u8 where "RED_CURRENT = 10"
definition GREEN_CURRENT :: u8 where "GREEN_CURRENT = 3"
definition BLUE_CURRENT :: u8 where "BLUE_CURRENT = 8"

text \<open>The two rows of \<^verbatim>\<open>led_mux_tapes[2][LP5569_MAX_PROGRAM_LEN]\<close>: twelve bytes
  are given for each, the rest of the 32 is zero.\<close>

definition led_mux_tapes :: "u8 list list" where
  "led_mux_tapes =
     [[0x00, 0x02, 0x00, 0x20, 0x00, 0x80, 0x00, 0x04, 0x00, 0x10, 0x01, 0x00] @ replicate 20 0,
      [0x00, 0x49, 0x00, 0x49, 0x00, 0x49, 0x00, 0x49, 0x00, 0x49, 0x00, 0x49] @ replicate 20 0]"

text \<open>\<^verbatim>\<open>led_prog[LP5569_MAX_PROGRAM_LEN]\<close>: fourteen bytes of instructions, sixteen
  zeros written out, and two more to fill the 32.\<close>

definition led_prog :: "u8 list" where
  "led_prog =
     [0x9c, LP5569_MEM_LEDMUX_LOCATION, 0x9c, 0x95, 0x40, 0xff, 0x7E, 0x00,
      0x40, 0x00, 0x9D, 0x80, 0xA0, 0x02] @ replicate 16 0 @ replicate 2 0"

text \<open>The idiom \<^verbatim>\<open>ret = f(...); if (ret) { printf(fmt, ret); return ret; }\<close>,
  followed by the rest \<open>k\<close> of the function.\<close>

definition or_return ::
  "(world \<Rightarrow> int \<times> world) \<Rightarrow> string \<Rightarrow> (world \<Rightarrow> int \<times> world) \<Rightarrow> world \<Rightarrow> int \<times> world" where
  "or_return f fmt k w =
     (case f w of (ret, w) \<Rightarrow> if ret \<noteq> 0 then (ret, printf fmt [ret] w) else k w)"

definition lp5569_set_register ::
  "extern \<Rightarrow> gpio_i2c \<Rightarrow> u8 \<Rightarrow> u8 \<Rightarrow> world \<Rightarrow> int \<times> world" where
  "lp5569_set_register env bus reg val w = i2c_set_register env bus LP5569_I2C_ADDR reg val w"

text \<open>The loop of \<^verbatim>\<open>lp5569_write_bulk\<close>, from the index \<open>i\<close> on. The register
  \<^verbatim>\<open>reg + i\<close> is passed as a \<^verbatim>\<open>uint8_t\<close>, so the sum wraps at 256.
  \<^verbatim>\<open>buf\<close> is a pointer in C and the array it points to is the list here; reading
  \<^verbatim>\<open>buf[i]\<close> past the array has no defined behaviour in C, and the theorems take
  \<open>buf_size\<close> to be at most the length of the list.\<close>

function lp5569_write_bulk_loop ::
  "extern \<Rightarrow> gpio_i2c \<Rightarrow> u8 \<Rightarrow> u8 list \<Rightarrow> u8 \<Rightarrow> nat \<Rightarrow> world \<Rightarrow> int \<times> world" where
  "lp5569_write_bulk_loop env bus reg buf buf_size i w =
     (if i < unat buf_size
      then (case lp5569_set_register env bus (reg + of_nat i) (buf ! i) w of (ret, w') \<Rightarrow>
        if ret \<noteq> 0
        then (ret, printf ''failed to write register in bulk operation: %d\<newline>'' [ret] w')
        else lp5569_write_bulk_loop env bus reg buf buf_size (i + 1) w')
      else (0, w))"
  by pat_completeness auto
termination
  by (relation "measure (\<lambda>(env, bus, reg, buf, buf_size, i, w). unat buf_size - i)") auto

declare lp5569_write_bulk_loop.simps [simp del]

definition lp5569_write_bulk ::
  "extern \<Rightarrow> gpio_i2c \<Rightarrow> u8 \<Rightarrow> u8 list \<Rightarrow> u8 \<Rightarrow> world \<Rightarrow> int \<times> world" where
  "lp5569_write_bulk env bus reg buf buf_size w =
     lp5569_write_bulk_loop env bus reg buf buf_size 0 w"

definition lp5569_engine_load_program :: "extern \<Rightarrow> gpio_i2c \<Rightarrow> world \<Rightarrow> int \<times> world" where
  "lp5569_engine_load_program env bus w =
     lp5569_set_register env bus LP5569_REG_LED_ENGINE_CONTROL2 0x54 w"

definition lp5569_engine_halt :: "extern \<Rightarrow> gpio_i2c \<Rightarrow> world \<Rightarrow> int \<times> world" where
  "lp5569_engine_halt env bus w =
     lp5569_set_register env bus LP5569_REG_LED_ENGINE_CONTROL2 0x00 w"

definition lp5569_engine_run :: "extern \<Rightarrow> gpio_i2c \<Rightarrow> world \<Rightarrow> int \<times> world" where
  "lp5569_engine_run env bus w =
     or_return (lp5569_set_register env bus LP5569_REG_LED_ENGINE_CONTROL2 0x80)
       ''failed to set Engine 1 to run mode: %d\<newline>''
    (or_return (lp5569_set_register env bus LP5569_REG_LED_ENGINE_CONTROL1 0x80)
       ''failed to set Engine 1 to free run mode: %d\<newline>''
    (\<lambda>w. (0, w))) w"

definition lp5569_mem_page_select :: "extern \<Rightarrow> gpio_i2c \<Rightarrow> bool \<Rightarrow> world \<Rightarrow> int \<times> world" where
  "lp5569_mem_page_select env bus is_mux w =
     (let page = (if is_mux then 0x01 else 0x00)
      in lp5569_set_register env bus LP5569_REG_PROG_MEM_PAGE_SELECT page w)"

definition lp5569_init :: "extern \<Rightarrow> gpio_i2c \<Rightarrow> world \<Rightarrow> int \<times> world" where
  "lp5569_init env bus w =
     or_return (lp5569_set_register env bus LP5569_REG_RESET 0xFF)
       ''failed to reset LED chip: %d\<newline>''
    (or_return (lp5569_set_register env bus LP5569_REG_CONFIG (push_bit 6 1))
       ''failed to enable chip: %d\<newline>''
    (or_return (lp5569_set_register env bus LP5569_REG_MISC
                  (push_bit 0 1 OR push_bit 3 3 OR push_bit 6 1))
       ''failed to configure chip: %d\<newline>''
    (or_return (lp5569_set_register env bus LP5569_REG_ENGINE1_PROG_START 0x00)
       ''failed to set engine program start address: %d\<newline>''
    (or_return (lp5569_set_register env bus LP5569_REG_LED0_CURRENT RED_CURRENT)
       ''failed to set current: %d\<newline>''
    (or_return (lp5569_set_register env bus LP5569_REG_LED3_CURRENT RED_CURRENT)
       ''failed to set current: %d\<newline>''
    (or_return (lp5569_set_register env bus LP5569_REG_LED6_CURRENT RED_CURRENT)
       ''failed to set current: %d\<newline>''
    (or_return (lp5569_set_register env bus LP5569_REG_LED1_CURRENT GREEN_CURRENT)
       ''failed to set current: %d\<newline>''
    (or_return (lp5569_set_register env bus LP5569_REG_LED4_CURRENT GREEN_CURRENT)
       ''failed to set current: %d\<newline>''
    (or_return (lp5569_set_register env bus LP5569_REG_LED7_CURRENT GREEN_CURRENT)
       ''failed to set current: %d\<newline>''
    (or_return (lp5569_set_register env bus LP5569_REG_LED2_CURRENT BLUE_CURRENT)
       ''failed to set current: %d\<newline>''
    (or_return (lp5569_set_register env bus LP5569_REG_LED5_CURRENT BLUE_CURRENT)
       ''failed to set current: %d\<newline>''
    (or_return (lp5569_set_register env bus LP5569_REG_LED8_CURRENT BLUE_CURRENT)
       ''failed to set current: %d\<newline>''
    (\<lambda>w. (0, w)))))))))))))) (mark Call_lp5569_init w)"

definition lp5569_run_program ::
  "extern \<Rightarrow> gpio_i2c \<Rightarrow> u8 list \<Rightarrow> u8 \<Rightarrow> u8 list \<Rightarrow> u8 \<Rightarrow> world \<Rightarrow> int \<times> world" where
  "lp5569_run_program env bus led_mux_buf led_mux_buf_len prog_buf prog_buf_len w =
     (let w = mark (Call_lp5569_run_program led_mux_buf led_mux_buf_len prog_buf prog_buf_len) w
      in if unat led_mux_buf_len > LP5569_MAX_PROGRAM_LEN \<or>
            unat prog_buf_len > LP5569_MAX_PROGRAM_LEN
         then (- 1, printf ''only 32 bytes for program size and LED mux info\<newline>'' [] w)
         else
           or_return (lp5569_engine_load_program env bus)
             ''failed to set engines to load program mode: %d\<newline>''
          (or_return (lp5569_mem_page_select env bus True)
             ''failed to select LED mux memory page: %d\<newline>''
          (or_return (lp5569_write_bulk env bus LP5569_REG_PROGRAM_MEM_00
                        led_mux_buf led_mux_buf_len)
             ''failed to write LED mux table to memory: %d\<newline>''
          (or_return (lp5569_mem_page_select env bus False)
             ''failed to select program memory page: %d\<newline>''
          (or_return (lp5569_write_bulk env bus LP5569_REG_PROGRAM_MEM_00
                        prog_buf prog_buf_len)
             ''failed to write program to memory: %d\<newline>''
          (or_return (lp5569_engine_halt env bus)
             ''failed to set engine to HALT mode: %d\<newline>''
          (or_return (lp5569_engine_run env bus)
             ''Failed to start engine program execution: %d\<newline>''
          (\<lambda>w. (0, w)))))))) w)"

text \<open>\<^verbatim>\<open>sizeof (led_mux_tapes)\<close> is the number of rows times the row length; the
  arguments \<^verbatim>\<open>LP5569_MAX_PROGRAM_LEN\<close> and \<^verbatim>\<open>sizeof (led_prog)\<close> are passed as
  \<^verbatim>\<open>uint8_t\<close>.\<close>

definition lp5569_play_tape :: "extern \<Rightarrow> gpio_i2c \<Rightarrow> u32 \<Rightarrow> world \<Rightarrow> int \<times> world" where
  "lp5569_play_tape env bus tape_index w =
     (let w = mark (Call_lp5569_play_tape tape_index) w
      in if unat tape_index \<ge>
              (length led_mux_tapes * LP5569_MAX_PROGRAM_LEN) div LP5569_MAX_PROGRAM_LEN
         then (- 1, printf ''out or range LED tape index\<newline>'' [] w)
         else (case lp5569_run_program env bus
                      (led_mux_tapes ! unat tape_index) (of_nat LP5569_MAX_PROGRAM_LEN)
                      led_prog (of_nat (length led_prog)) w of (ret, w) \<Rightarrow>
           if ret \<noteq> 0
           then (ret, printf ''failed to play tape %u: %d\<newline>'' [uint tape_index, ret] w)
           else (0, w)))"

text \<open>The retry loop of \<^verbatim>\<open>lp5569_cmd\<close>,
  \<^verbatim>\<open>for (i = 0; i < 15; i++) { if ((ret = lp5569_init(..)) != 0) { printf; udelay(100 * 1000); } else break; }\<close>,
  from the counter \<open>i\<close> on; \<open>ret\<close> is the value the variable holds on entry.\<close>

function lp5569_cmd_loop ::
  "extern \<Rightarrow> gpio_i2c \<Rightarrow> nat \<Rightarrow> int \<Rightarrow> world \<Rightarrow> int \<times> world" where
  "lp5569_cmd_loop env bus i ret w =
     (if i < 15
      then (case lp5569_init env bus w of (ret', w') \<Rightarrow>
        if ret' \<noteq> 0
        then lp5569_cmd_loop env bus (i + 1) ret'
               (udelay (100 * 1000) (printf ''failed to init lp5569: %d\<newline>'' [ret'] w'))
        else (ret', w'))
      else (ret, w))"
  by pat_completeness auto
termination
  by (relation "measure (\<lambda>(env, bus, i, ret, w). 15 - i)") auto

declare lp5569_cmd_loop.simps [simp del]

text \<open>The label \<^verbatim>\<open>deinit\<close> of \<^verbatim>\<open>lp5569_cmd\<close>, reached with the value \<open>ret\<close>
  of the steps before it. The assignment \<^verbatim>\<open>ret2 = i2c_deinit(&gpio_i2c) != 0\<close> stores
  the result of the comparison.\<close>

definition lp5569_cmd_deinit :: "extern \<Rightarrow> gpio_i2c \<Rightarrow> int \<Rightarrow> world \<Rightarrow> int \<times> world" where
  "lp5569_cmd_deinit env bus ret w =
     (case i2c_deinit env bus w of (d, w) \<Rightarrow>
        (let ret2 = (if d \<noteq> 0 then 1 else 0 :: int)
         in if ret2 \<noteq> 0
            then cmd_process_error env (if ret \<noteq> 0 then ret else ret2)
                   (printf ''failed to deinit i2c: %d\<newline>'' [ret2] w)
            else (0, w)))"

definition lp5569_cmd :: "extern \<Rightarrow> u32 \<Rightarrow> world \<Rightarrow> int \<times> world" where
  "lp5569_cmd env tape_index w =
     (case i2c_init env w of (ret, gpio_i2c, w) \<Rightarrow>
        if ret \<noteq> 0
        then cmd_process_error env ret (printf ''failed to init i2c: %d\<newline>'' [ret] w)
        else (case lp5569_cmd_loop env gpio_i2c 0 ret w of (ret, w) \<Rightarrow>
          if ret \<noteq> 0
          then lp5569_cmd_deinit env gpio_i2c ret w
          else (case lp5569_play_tape env gpio_i2c tape_index w of (ret, w) \<Rightarrow>
            if ret \<noteq> 0
            then lp5569_cmd_deinit env gpio_i2c ret (printf ''failed to play tape: %d\<newline>'' [ret] w)
            else lp5569_cmd_deinit env gpio_i2c ret w)))"

definition do_lp5569 :: "extern \<Rightarrow> world \<Rightarrow> int \<times> world" where
  "do_lp5569 env w = lp5569_cmd env 0 w"

section \<open>Vocabulary of the properties\<close>

subsection \<open>The events of the bit operations\<close>

text \<open>The events that \<^verbatim>\<open>i2c_start\<close>, \<^verbatim>\<open>i2c_stop\<close> and \<^verbatim>\<open>i2c_write_bit\<close> log
  whatever the pins answer, the arguments of the eight calls of \<^verbatim>\<open>i2c_write_bit\<close> for a
  byte, and the events of \<^verbatim>\<open>i2c_write_byte\<close> when every GPIO call succeeds: up to the
  sample of the acknowledgment (\<open>byte_pre\<close>) and in all (\<open>byte_events\<close>).\<close>

definition start_events :: "gpio_i2c \<Rightarrow> event list" where
  "start_events bus =
     [Call_i2c_start, Udelay (delay bus), Gpio_direction_output (sda bus) 1, Udelay (delay bus),
      Gpio_direction_output (scl bus) 1, Udelay (delay bus),
      Gpio_direction_output (sda bus) 0, Udelay (delay bus)]"

definition stop_events :: "gpio_i2c \<Rightarrow> event list" where
  "stop_events bus =
     [Call_i2c_stop, Gpio_direction_output (scl bus) 0, Udelay (delay bus),
      Gpio_direction_output (sda bus) 0, Udelay (delay bus),
      Gpio_direction_output (scl bus) 1, Udelay (delay bus),
      Gpio_direction_output (sda bus) 1, Udelay (delay bus)]"

definition write_bit_events :: "gpio_i2c \<Rightarrow> u8 \<Rightarrow> event list" where
  "write_bit_events bus b =
     [Call_i2c_write_bit b, Gpio_direction_output (scl bus) 0, Udelay (delay bus),
      Gpio_direction_output (sda bus) (uint b), Udelay (delay bus),
      Gpio_direction_output (scl bus) 1, Udelay (2 * delay bus)]"

definition data_bits :: "u8 \<Rightarrow> u8 list" where
  "data_bits data = map (\<lambda>j. push_bit j data AND 0x80) [0..<8]"

definition byte_pre :: "gpio_i2c \<Rightarrow> u8 \<Rightarrow> event list" where
  "byte_pre bus d =
     Call_i2c_write_byte d # concat (map (write_bit_events bus) (data_bits d)) @
     [Udelay (delay bus), Call_i2c_sda_high, Gpio_direction_output (scl bus) 0,
      Udelay (delay bus), Gpio_direction_output (sda bus) 1, Udelay (delay bus),
      Gpio_direction_input (sda bus), Gpio_get_value (sda bus), Call_i2c_read_bit,
      Gpio_direction_output (scl bus) 1, Udelay (delay bus),
      Gpio_direction_input (sda bus), Gpio_get_value (sda bus)]"

definition byte_events :: "gpio_i2c \<Rightarrow> u8 \<Rightarrow> event list" where
  "byte_events bus d =
     byte_pre bus d @
     [Udelay (delay bus), Gpio_direction_output (scl bus) 0, Udelay (2 * delay bus)]"

subsection \<open>Classes of events\<close>

text \<open>\<open>bus_event\<close>: the pin operations and the two delays of a bit; \<open>byte_event\<close>: these
  and the entries of the functions that \<^verbatim>\<open>i2c_write_byte\<close> is made of; \<open>i2c_event\<close>: these
  and the entries of the functions that \<^verbatim>\<open>i2c_set_register\<close> is made of. The other
  predicates select the events a property counts; \<open>retry_event\<close> selects the entries of
  \<^verbatim>\<open>lp5569_init\<close> and \<^verbatim>\<open>lp5569_play_tape\<close> and the delay between two attempts.\<close>

fun bus_event :: "gpio_i2c \<Rightarrow> event \<Rightarrow> bool" where
  "bus_event bus (Gpio_direction_output p v) = True"
| "bus_event bus (Gpio_direction_input p) = True"
| "bus_event bus (Gpio_get_value p) = True"
| "bus_event bus (Udelay d) = (d = delay bus \<or> d = 2 * delay bus)"
| "bus_event bus _ = False"

fun byte_event :: "gpio_i2c \<Rightarrow> event \<Rightarrow> bool" where
  "byte_event bus (Call_i2c_write_bit b) = True"
| "byte_event bus Call_i2c_read_bit = True"
| "byte_event bus Call_i2c_sda_high = True"
| "byte_event bus (Call_i2c_write_byte d) = True"
| "byte_event bus e = bus_event bus e"

fun i2c_event :: "gpio_i2c \<Rightarrow> event \<Rightarrow> bool" where
  "i2c_event bus Call_i2c_start = True"
| "i2c_event bus Call_i2c_stop = True"
| "i2c_event bus (Call_i2c_set_register a r v) = True"
| "i2c_event bus e = byte_event bus e"

fun is_set_register :: "event \<Rightarrow> bool" where
  "is_set_register (Call_i2c_set_register a r v) = True"
| "is_set_register _ = False"

fun is_write_byte :: "event \<Rightarrow> bool" where
  "is_write_byte (Call_i2c_write_byte d) = True"
| "is_write_byte _ = False"

definition is_start_stop :: "event \<Rightarrow> bool" where
  "is_start_stop e \<longleftrightarrow> e = Call_i2c_start \<or> e = Call_i2c_stop"

fun is_bit_call :: "event \<Rightarrow> bool" where
  "is_bit_call (Call_i2c_write_bit b) = True"
| "is_bit_call Call_i2c_read_bit = True"
| "is_bit_call _ = False"

fun is_run_program :: "event \<Rightarrow> bool" where
  "is_run_program (Call_lp5569_run_program m ml p pl) = True"
| "is_run_program _ = False"

fun is_get_value :: "event \<Rightarrow> bool" where
  "is_get_value (Gpio_get_value p) = True"
| "is_get_value _ = False"

fun retry_event :: "event \<Rightarrow> bool" where
  "retry_event Call_lp5569_init = True"
| "retry_event (Udelay d) = (d = 100 * 1000)"
| "retry_event (Call_lp5569_play_tape i) = True"
| "retry_event _ = False"

subsection \<open>Sequences of register writes\<close>

text \<open>\<open>writes bus f xs\<close>: from every state, \<open>f\<close> logs events of the bus only, the register
  writes among them are a prefix of \<open>xs\<close>, and all of \<open>xs\<close> when \<open>f\<close> returns 0.\<close>

definition writes :: "gpio_i2c \<Rightarrow> (world \<Rightarrow> int \<times> world) \<Rightarrow> event list \<Rightarrow> bool" where
  "writes bus f xs \<longleftrightarrow>
     (\<forall>w. \<exists>es. log (snd (f w)) = log w @ es \<and> list_all (i2c_event bus) es \<and>
        prefix (filter is_set_register es) xs \<and>
        (fst (f w) = 0 \<longrightarrow> filter is_set_register es = xs))"

definition SR :: "u8 \<Rightarrow> u8 \<Rightarrow> event" where
  "SR r v = Call_i2c_set_register LP5569_I2C_ADDR r v"

definition bulk_writes :: "u8 \<Rightarrow> u8 list \<Rightarrow> nat \<Rightarrow> nat \<Rightarrow> event list" where
  "bulk_writes reg buf i n =
     map (\<lambda>j. Call_i2c_set_register LP5569_I2C_ADDR (reg + of_nat j) (buf ! j)) [i..<n]"

definition program_writes :: "u8 list \<Rightarrow> u8 \<Rightarrow> u8 list \<Rightarrow> u8 \<Rightarrow> event list" where
  "program_writes mux mux_len prog prog_len =
     [SR LP5569_REG_LED_ENGINE_CONTROL2 0x54, SR LP5569_REG_PROG_MEM_PAGE_SELECT 1] @
     map (\<lambda>j. SR (LP5569_REG_PROGRAM_MEM_00 + of_nat j) (mux ! j)) [0..<unat mux_len] @
     [SR LP5569_REG_PROG_MEM_PAGE_SELECT 0] @
     map (\<lambda>j. SR (LP5569_REG_PROGRAM_MEM_00 + of_nat j) (prog ! j)) [0..<unat prog_len] @
     [SR LP5569_REG_LED_ENGINE_CONTROL2 0x00, SR LP5569_REG_LED_ENGINE_CONTROL2 0x80,
      SR LP5569_REG_LED_ENGINE_CONTROL1 0x80]"

subsection \<open>The state after a failed attempt\<close>

text \<open>The state in which the retry loop of \<^verbatim>\<open>lp5569_cmd\<close> starts its next attempt,
  when the attempt from \<open>w\<close> has failed: the failure is printed and 100 ms pass.\<close>

definition retry_state :: "extern \<Rightarrow> gpio_i2c \<Rightarrow> world \<Rightarrow> world" where
  "retry_state env bus w =
     (case lp5569_init env bus w of (ret, w') \<Rightarrow>
        udelay (100 * 1000) (printf ''failed to init lp5569: %d\<newline>'' [ret] w'))"

subsection \<open>A bus on which every byte is acknowledged\<close>

text \<open>\<open>acknowledges env bus w\<close>: from the state \<open>w\<close> on, switching the data pin to input
  always succeeds and the data line always reads 0. The acknowledgment bit that
  \<^verbatim>\<open>i2c_write_byte\<close> reads after each byte is then 0, whatever the other GPIO
  calls return.\<close>

definition acknowledges :: "extern \<Rightarrow> gpio_i2c \<Rightarrow> world \<Rightarrow> bool" where
  "acknowledges env bus w \<longleftrightarrow>
     (\<forall>es. reply env (log w @ es @ [Gpio_direction_input (sda bus)]) = 0 \<and>
           reply env (log w @ es @ [Gpio_get_value (sda bus)]) = 0)"

subsection \<open>Environments and inputs of the examples\<close>

text \<open>\<open>chip nack\<close> is an environment in which every GPIO call succeeds and the data line
  reads 1 exactly when \<open>nack\<close> holds of the log so far: the chip does not acknowledge then.
  \<open>sample_nr n\<close> refuses at the \<open>n\<close>-th sample of the data line, \<open>settling\<close> as long as fewer
  than two delays of 100 ms have passed. \<open>quiet N w\<close>: from \<open>w\<close> on the chip always
  acknowledges; \<open>succeeds I f\<close>: from a state where \<open>I\<close> holds, \<open>f\<close> returns 0 and keeps
  \<open>I\<close>. \<open>w0\<close> is the empty state, \<open>bus0\<close> the handle that \<^verbatim>\<open>i2c_init\<close> fills, and
  \<open>w_acquired\<close> the state once the two pins are requested.\<close>

definition chip :: "(event list \<Rightarrow> bool) \<Rightarrow> extern" where
  "chip nack =
     \<lparr>reply = (\<lambda>l. case last l of
                  Gpio_get_value p \<Rightarrow> if nack l then 1 else 0
                | Cmd_process_error e \<Rightarrow> if e = 0 then 0 else 1
                | _ \<Rightarrow> 0),
      EINVAL = 22\<rparr>"

definition sample_nr :: "nat \<Rightarrow> event list \<Rightarrow> bool" where
  "sample_nr n l \<longleftrightarrow> length (filter is_get_value l) = n"

definition long_delays :: "event list \<Rightarrow> nat" where
  "long_delays l = length (filter (\<lambda>e. e = Udelay (100 * 1000)) l)"

definition settling :: "event list \<Rightarrow> bool" where
  "settling l \<longleftrightarrow> long_delays l < 2"

definition quiet :: "(event list \<Rightarrow> bool) \<Rightarrow> world \<Rightarrow> bool" where
  "quiet N w \<longleftrightarrow> (\<forall>es. \<not> N (log w @ es))"

definition succeeds :: "(world \<Rightarrow> bool) \<Rightarrow> (world \<Rightarrow> int \<times> world) \<Rightarrow> bool" where
  "succeeds I f \<longleftrightarrow> (\<forall>w. I w \<longrightarrow> fst (f w) = 0 \<and> I (snd (f w)))"

definition w0 :: world where "w0 = \<lparr>log = [], console = []\<rparr>"

definition bus0 :: gpio_i2c where "bus0 = \<lparr>scl = 3, sda = 2, delay = 5\<rparr>"

definition w_acquired :: world where
  "w_acquired = \<lparr>log = [Gpio_request 3 ''cmd_gpio'', Gpio_request 2 ''cmd_gpio''], console = []\<rparr>"

section \<open>Lemmas\<close>

subsection \<open>The log of the pin and bit operations\<close>

lemma log_mark [simp]: "log (mark e w) = log w @ [e]"
  and console_mark [simp]: "console (mark e w) = console w"
  by (simp_all add: mark_def)

lemma log_printf [simp]: "log (printf fmt args w) = log w"
  and console_printf [simp]: "console (printf fmt args w) = console w @ [(fmt, args)]"
  by (simp_all add: printf_def)

lemma log_udelay [simp]: "log (udelay d w) = log w @ [Udelay d]"
  and console_udelay [simp]: "console (udelay d w) = console w"
  by (simp_all add: udelay_def)

lemma fst_extcall [simp]: "fst (extcall env e w) = reply env (log w @ [e])"
  and log_extcall [simp]: "log (snd (extcall env e w)) = log w @ [e]"
  and console_extcall [simp]: "console (snd (extcall env e w)) = console w"
  by (simp_all add: extcall_def Let_def)

lemma log_gpio_write [simp]:
  "log (snd (gpio_write env p b w)) = log w @ [Gpio_direction_output p b]"
  by (simp add: gpio_write_def gpio_direction_output_def split: prod.splits)
     (metis log_extcall snd_conv)

lemma log_set_sda [simp]: "log (set_sda env bus b w) = log w @ [Gpio_direction_output (sda bus) b]"
  and log_set_scl [simp]: "log (set_scl env bus b w) = log w @ [Gpio_direction_output (scl bus) b]"
  by (simp_all add: set_sda_def set_scl_def)

lemma log_i2c_start: "log (i2c_start env bus w) = log w @ start_events bus"
  by (simp add: i2c_start_def start_events_def Let_def)

lemma log_i2c_stop: "log (i2c_stop env bus w) = log w @ stop_events bus"
  by (simp add: i2c_stop_def stop_events_def Let_def)

lemma log_i2c_write_bit: "log (i2c_write_bit env bus b w) = log w @ write_bit_events bus b"
  by (simp add: i2c_write_bit_def write_bit_events_def Let_def)

lemma log_i2c_write_byte_loop:
  "log (snd (i2c_write_byte_loop env bus j data w)) =
     log w @ concat (map (\<lambda>i. write_bit_events bus (push_bit i data AND 0x80)) [0..<8 - j])"
proof (induction env bus j data w rule: i2c_write_byte_loop.induct)
  case (1 env bus j data w)
  show ?case
  proof (cases "j < 8")
    case True
    then have "[0..<8 - j] = 0 # map Suc [0..<8 - (j + 1)]"
      by (metis Suc_diff_Suc Suc_eq_plus1 map_Suc_upt upt_conv_Cons zero_less_diff)
    with True 1 show ?thesis
      by (subst i2c_write_byte_loop.simps)
         (simp add: log_i2c_write_bit comp_def push_bit_push_bit flip: push_bit_Suc)
  next
    case False
    then show ?thesis by (subst i2c_write_byte_loop.simps) simp
  qed
qed

subsection \<open>Events of each class\<close>

lemma filter_none: "list_all Q es \<Longrightarrow> (\<And>e. Q e \<Longrightarrow> \<not> P e) \<Longrightarrow> filter P es = []"
  by (induction es) auto

lemma list_all_mono': "list_all P es \<Longrightarrow> (\<And>e. P e \<Longrightarrow> Q e) \<Longrightarrow> list_all Q es"
  by (induction es) auto

lemma bus_event_byte_event: "bus_event bus e \<Longrightarrow> byte_event bus e"
  by (cases e) simp_all

lemma byte_event_i2c_event: "byte_event bus e \<Longrightarrow> i2c_event bus e"
  by (cases e) simp_all

lemma byte_event_write_bit_events: "list_all (byte_event bus) (write_bit_events bus b)"
  by (simp add: write_bit_events_def)

lemma byte_event_data_bits:
  "list_all (byte_event bus) (concat (map (write_bit_events bus) bs))"
  by (induction bs) (simp_all add: byte_event_write_bit_events)

lemma i2c_event_start_events: "list_all (i2c_event bus) (start_events bus)"
  and i2c_event_stop_events: "list_all (i2c_event bus) (stop_events bus)"
  by (simp_all add: start_events_def stop_events_def)

subsection \<open>A byte and a register write, on any bus\<close>

lemma gpio_read_shape:
  "\<exists>es. log (snd (gpio_read env p w)) = log w @ es \<and> list_all (bus_event bus) es"
  by (simp add: gpio_read_def gpio_direction_input_def gpio_get_value_def extcall_def Let_def)

lemma i2c_sda_high_shape:
  "\<exists>es. log (i2c_sda_high env bus w) = log w @ Call_i2c_sda_high # es \<and> list_all (bus_event bus) es"
proof -
  let ?w = "udelay (delay bus) (set_sda env bus 1 (udelay (delay bus) (set_scl env bus 0 (mark Call_i2c_sda_high w))))"
  obtain es where "log (snd (gpio_read env (sda bus) ?w)) = log ?w @ es" "list_all (bus_event bus) es"
    using gpio_read_shape by blast
  then show ?thesis
    by (simp add: i2c_sda_high_def get_sda_def Let_def)
qed

lemma i2c_read_bit_shape:
  "\<exists>es. log (snd (i2c_read_bit env bus w)) = log w @ Call_i2c_read_bit # es \<and> list_all (bus_event bus) es"
proof -
  let ?w = "udelay (delay bus) (set_scl env bus 1 (mark Call_i2c_read_bit w))"
  obtain es where "log (snd (gpio_read env (sda bus) ?w)) = log ?w @ es" "list_all (bus_event bus) es"
    using gpio_read_shape by blast
  then show ?thesis
    by (simp add: i2c_read_bit_def get_sda_def Let_def case_prod_beta)
qed

lemma i2c_write_byte_shape:
  "\<exists>es1 es2. log (snd (i2c_write_byte env bus data w)) =
      log w @ Call_i2c_write_byte data # concat (map (write_bit_events bus) (data_bits data)) @
      Udelay (delay bus) # Call_i2c_sda_high # es1 @ Call_i2c_read_bit # es2 \<and>
      list_all (bus_event bus) es1 \<and> list_all (bus_event bus) es2"
proof -
  let ?w1 = "snd (i2c_write_byte_loop env bus 0 data (mark (Call_i2c_write_byte data) w))"
  let ?w2 = "i2c_sda_high env bus (udelay (delay bus) ?w1)"
  obtain es1 where es1: "log ?w2 = log (udelay (delay bus) ?w1) @ Call_i2c_sda_high # es1"
      "list_all (bus_event bus) es1"
    using i2c_sda_high_shape by blast
  obtain es2 where es2: "log (snd (i2c_read_bit env bus ?w2)) = log ?w2 @ Call_i2c_read_bit # es2"
      "list_all (bus_event bus) es2"
    using i2c_read_bit_shape by blast
  have "log (snd (i2c_write_byte env bus data w)) = log (snd (i2c_read_bit env bus ?w2))"
    by (simp add: i2c_write_byte_def Let_def case_prod_beta)
  with es1 es2 show ?thesis
    by (intro exI[of _ es1] exI[of _ es2])
       (simp add: log_i2c_write_byte_loop data_bits_def comp_def)
qed

lemma i2c_write_byte_emits:
  "\<exists>es. log (snd (i2c_write_byte env bus data w)) = log w @ Call_i2c_write_byte data # es \<and>
     list_all (byte_event bus) es \<and> filter is_write_byte es = []"
proof -
  obtain es1 es2 where *: "log (snd (i2c_write_byte env bus data w)) =
      log w @ Call_i2c_write_byte data # concat (map (write_bit_events bus) (data_bits data)) @
      Udelay (delay bus) # Call_i2c_sda_high # es1 @ Call_i2c_read_bit # es2"
      "list_all (bus_event bus) es1" "list_all (bus_event bus) es2"
    using i2c_write_byte_shape by blast
  let ?es = "concat (map (write_bit_events bus) (data_bits data)) @
      Udelay (delay bus) # Call_i2c_sda_high # es1 @ Call_i2c_read_bit # es2"
  have b: "list_all (byte_event bus) ?es"
    using *(2,3) by (simp add: byte_event_data_bits list_all_mono' [OF _ bus_event_byte_event])
  have "filter is_write_byte (concat (map (write_bit_events bus) bs)) = []" for bs
    by (induction bs) (simp_all add: write_bit_events_def)
  moreover have "filter is_write_byte es1 = []" "filter is_write_byte es2 = []"
    using *(2,3) by (auto intro!: filter_none elim: bus_event.elims)
  ultimately have "filter is_write_byte ?es = []" by simp
  with * b show ?thesis by blast
qed

lemma i2c_set_register_cases:
  assumes "w1 = i2c_start env bus (mark (Call_i2c_set_register a r v) w)"
    and "ra = i2c_write_byte env bus a w1"
    and "rr = i2c_write_byte env bus r (snd ra)"
    and "rv = i2c_write_byte env bus v (snd rr)"
  shows "i2c_set_register env bus a r v w =
    (if fst ra \<noteq> 0
     then (- 1, i2c_stop env bus
             (printf ''i2c: writing address %02X failed: %d\<newline>'' [uint a, fst ra] (snd ra)))
     else if fst rr \<noteq> 0
     then (- 1, i2c_stop env bus
             (printf ''i2c: Writing register %u failed: %d\<newline>'' [uint r, fst rr] (snd rr)))
     else if fst rv \<noteq> 0
     then (- 1, i2c_stop env bus (printf ''Writing I2C value failed\<newline>'' [] (snd rv)))
     else (0, i2c_stop env bus (snd rv)))"
  unfolding assms by (simp add: i2c_set_register_def Let_def case_prod_beta)

lemma i2c_set_register_shape:
  "\<exists>es. log (snd (i2c_set_register env bus a r v w)) =
       log w @ Call_i2c_set_register a r v # start_events bus @ es @ stop_events bus \<and>
     list_all (byte_event bus) es \<and>
     (fst (i2c_set_register env bus a r v w) = 0 \<or> fst (i2c_set_register env bus a r v w) = - 1)"
proof -
  define w1 where "w1 = i2c_start env bus (mark (Call_i2c_set_register a r v) w)"
  define ra where "ra = i2c_write_byte env bus a w1"
  define rr where "rr = i2c_write_byte env bus r (snd ra)"
  define rv where "rv = i2c_write_byte env bus v (snd rr)"
  note c = i2c_set_register_cases [OF w1_def ra_def rr_def rv_def]
  have l1: "log w1 = log w @ Call_i2c_set_register a r v # start_events bus"
    by (simp add: w1_def log_i2c_start)
  obtain ea where ea: "log (snd ra) = log w1 @ Call_i2c_write_byte a # ea"
      "list_all (byte_event bus) ea"
    unfolding ra_def using i2c_write_byte_emits by blast
  obtain er where er: "log (snd rr) = log (snd ra) @ Call_i2c_write_byte r # er"
      "list_all (byte_event bus) er"
    unfolding rr_def using i2c_write_byte_emits by blast
  obtain ev where ev: "log (snd rv) = log (snd rr) @ Call_i2c_write_byte v # ev"
      "list_all (byte_event bus) ev"
    unfolding rv_def using i2c_write_byte_emits by blast
  consider (A) "fst ra \<noteq> 0" | (R) "fst ra = 0" "fst rr \<noteq> 0"
    | (V) "fst ra = 0" "fst rr = 0"
    by blast
  then show ?thesis
  proof cases
    case A
    with c l1 ea show ?thesis
      by (intro exI[of _ "Call_i2c_write_byte a # ea"]) (simp add: log_i2c_stop)
  next
    case R
    with c l1 ea er show ?thesis
      by (intro exI[of _ "Call_i2c_write_byte a # ea @ Call_i2c_write_byte r # er"])
         (simp add: log_i2c_stop)
  next
    case V
    with c l1 ea er ev show ?thesis
      by (intro exI[of _ "Call_i2c_write_byte a # ea @ Call_i2c_write_byte r # er @
            Call_i2c_write_byte v # ev"])
         (simp add: log_i2c_stop)
  qed
qed

lemma i2c_set_register_emits:
  "\<exists>es. log (snd (i2c_set_register env bus a r v w)) = log w @ Call_i2c_set_register a r v # es \<and>
     list_all (i2c_event bus) es \<and> filter is_set_register es = []"
proof -
  obtain es where *: "log (snd (i2c_set_register env bus a r v w)) =
       log w @ Call_i2c_set_register a r v # start_events bus @ es @ stop_events bus"
     "list_all (byte_event bus) es"
    using i2c_set_register_shape by blast
  have a: "list_all (i2c_event bus) (start_events bus @ es @ stop_events bus)"
    using *(2)
    by (simp add: i2c_event_start_events i2c_event_stop_events
          list_all_mono' [OF _ byte_event_i2c_event])
  have "filter is_set_register es = []"
    using *(2) by (auto intro!: filter_none elim!: byte_event.elims bus_event.elims)
  then have "filter is_set_register (start_events bus @ es @ stop_events bus) = []"
    by (simp add: start_events_def stop_events_def)
  with * a show ?thesis by blast
qed

subsection \<open>The bits of a byte\<close>

lemma upt_8: "[0..<8] = [0, 1, 2, 3, 4, 5, 6, 7]"
  by (simp add: upt_rec)

lemma bit_128: "bit (128 :: u8) n \<longleftrightarrow> n = 7"
proof -
  have "bit (2 ^ 7 :: u8) n \<longleftrightarrow> n = 7"
    unfolding bit_exp_iff by (auto simp: possible_bit_word)
  moreover have "(2 ^ 7 :: u8) = 128" by simp
  ultimately show ?thesis by (simp only:)
qed

lemma and_0x80_eq: "(x :: u8) AND 0x80 = (if bit x 7 then 0x80 else 0)"
proof (rule bit_word_eqI)
  fix n assume "n < LENGTH(8)"
  show "bit (x AND 0x80) n = bit (if bit x 7 then 0x80 else 0 :: u8) n"
    using bit_128 [of n] by (auto simp add: bit_and_iff)
qed

lemma data_bit:
  "j < 8 \<Longrightarrow> push_bit j (data :: u8) AND 0x80 = (if bit data (7 - j) then 0x80 else 0)"
  by (simp add: and_0x80_eq bit_push_bit_iff)

lemma data_bits_msb_first:
  "map (\<lambda>j. push_bit j data AND 0x80 \<noteq> 0) [0..<8] = map (bit (data :: u8)) [7, 6, 5, 4, 3, 2, 1, 0]"
proof -
  have "map (\<lambda>j. push_bit j data AND 0x80 \<noteq> 0) [0..<8] = map (\<lambda>j. bit data (7 - j)) [0..<8]"
    by (rule map_cong) (simp_all add: data_bit)
  also have "\<dots> = map (bit data) [7, 6, 5, 4, 3, 2, 1, 0]"
    by (simp add: upt_rec)
  finally show ?thesis .
qed

subsection \<open>Sequences of register writes\<close>

lemma or_return_fail:
  "fst (f w) \<noteq> 0 \<Longrightarrow> or_return f fmt k w = (fst (f w), printf fmt [fst (f w)] (snd (f w)))"
  by (simp add: or_return_def case_prod_beta)

lemma or_return_ok: "fst (f w) = 0 \<Longrightarrow> or_return f fmt k w = k (snd (f w))"
  by (simp add: or_return_def case_prod_beta)

lemma or_return_zero: "fst (or_return f fmt k w) = 0 \<Longrightarrow> fst (f w) = 0"
  by (auto simp: or_return_def case_prod_beta split: if_splits)

lemma writesI:
  assumes "\<And>w. \<exists>es. log (snd (f w)) = log w @ es \<and> list_all (i2c_event bus) es \<and>
        prefix (filter is_set_register es) xs \<and>
        (fst (f w) = 0 \<longrightarrow> filter is_set_register es = xs)"
  shows "writes bus f xs"
  using assms unfolding writes_def by blast

lemma writesE:
  "writes bus f xs \<Longrightarrow> \<exists>es. log (snd (f w)) = log w @ es \<and> list_all (i2c_event bus) es \<and>
        prefix (filter is_set_register es) xs \<and>
        (fst (f w) = 0 \<longrightarrow> filter is_set_register es = xs)"
  by (simp add: writes_def)

lemma writes_return: "writes bus (\<lambda>w. (0, w)) []"
  by (rule writesI) simp

lemma writes_or_return:
  assumes f: "writes bus f xs" and k: "writes bus k ys"
  shows "writes bus (or_return f fmt k) (xs @ ys)"
proof (rule writesI)
  fix w
  obtain es where es: "log (snd (f w)) = log w @ es" "list_all (i2c_event bus) es"
    "prefix (filter is_set_register es) xs" "fst (f w) = 0 \<Longrightarrow> filter is_set_register es = xs"
    using writesE [OF f, of w] by blast
  show "\<exists>es. log (snd (or_return f fmt k w)) = log w @ es \<and> list_all (i2c_event bus) es \<and>
        prefix (filter is_set_register es) (xs @ ys) \<and>
        (fst (or_return f fmt k w) = 0 \<longrightarrow> filter is_set_register es = xs @ ys)"
  proof (cases "fst (f w) = 0")
    case False
    with es show ?thesis
      by (intro exI[of _ es]) (simp add: or_return_def case_prod_beta prefix_prefix)
  next
    case True
    obtain es' where es': "log (snd (k (snd (f w)))) = log (snd (f w)) @ es'"
      "list_all (i2c_event bus) es'"
      "prefix (filter is_set_register es') ys"
      "fst (k (snd (f w))) = 0 \<Longrightarrow> filter is_set_register es' = ys"
      using writesE [OF k, of "snd (f w)"] by blast
    from True es es' show ?thesis
      by (intro exI[of _ "es @ es'"]) (simp add: or_return_def case_prod_beta)
  qed
qed

lemma writes_lp5569_set_register:
  "writes bus (lp5569_set_register env bus r v) [Call_i2c_set_register LP5569_I2C_ADDR r v]"
proof (rule writesI)
  fix w
  obtain es where "log (snd (i2c_set_register env bus LP5569_I2C_ADDR r v w)) =
      log w @ Call_i2c_set_register LP5569_I2C_ADDR r v # es"
    "list_all (i2c_event bus) es" "filter is_set_register es = []"
    using i2c_set_register_emits by blast
  then show "\<exists>es. log (snd (lp5569_set_register env bus r v w)) = log w @ es \<and>
     list_all (i2c_event bus) es \<and>
     prefix (filter is_set_register es) [Call_i2c_set_register LP5569_I2C_ADDR r v] \<and>
     (fst (lp5569_set_register env bus r v w) = 0 \<longrightarrow>
       filter is_set_register es = [Call_i2c_set_register LP5569_I2C_ADDR r v])"
    by (intro exI[of _ "Call_i2c_set_register LP5569_I2C_ADDR r v # es"])
       (simp add: lp5569_set_register_def)
qed

lemma bulk_writes_step:
  "i < n \<Longrightarrow> bulk_writes reg buf i n =
     Call_i2c_set_register LP5569_I2C_ADDR (reg + of_nat i) (buf ! i) # bulk_writes reg buf (i + 1) n"
  by (simp add: bulk_writes_def upt_conv_Cons)

lemma lp5569_write_bulk_loop_step:
  "i < unat n \<Longrightarrow> lp5569_write_bulk_loop env bus reg buf n i =
     or_return (lp5569_set_register env bus (reg + of_nat i) (buf ! i))
       ''failed to write register in bulk operation: %d\<newline>''
       (lp5569_write_bulk_loop env bus reg buf n (i + 1))"
  by (rule ext, subst lp5569_write_bulk_loop.simps) (simp add: or_return_def case_prod_beta)

lemma lp5569_write_bulk_loop_done:
  "\<not> i < unat n \<Longrightarrow> lp5569_write_bulk_loop env bus reg buf n i = (\<lambda>w. (0, w))"
  by (rule ext, subst lp5569_write_bulk_loop.simps) simp

lemma writes_bulk_loop:
  "writes bus (lp5569_write_bulk_loop env bus reg buf n i) (bulk_writes reg buf i (unat n))"
proof (induction "unat n - i" arbitrary: i)
  case 0
  then have "\<not> i < unat n" by simp
  then show ?case
    by (simp add: lp5569_write_bulk_loop_done bulk_writes_def writes_return)
next
  case (Suc d)
  then have lt: "i < unat n" and d: "d = unat n - (i + 1)" by simp_all
  have "writes bus (lp5569_write_bulk_loop env bus reg buf n (i + 1))
          (bulk_writes reg buf (i + 1) (unat n))"
    using Suc.hyps(1) [OF d] .
  with lt show ?case
    using writes_or_return [OF writes_lp5569_set_register]
    by (simp only: lp5569_write_bulk_loop_step bulk_writes_step) simp
qed

lemma writes_bulk:
  "writes bus (lp5569_write_bulk env bus reg buf n) (bulk_writes reg buf 0 (unat n))"
  using writes_bulk_loop [of bus env reg buf n 0]
  by (simp add: lp5569_write_bulk_def [abs_def])

lemmas writes_SR = writes_lp5569_set_register [folded SR_def]

lemma writes_engine_load_program:
  "writes bus (lp5569_engine_load_program env bus) [SR LP5569_REG_LED_ENGINE_CONTROL2 0x54]"
  unfolding lp5569_engine_load_program_def [abs_def] by (rule writes_SR)

lemma writes_engine_halt:
  "writes bus (lp5569_engine_halt env bus) [SR LP5569_REG_LED_ENGINE_CONTROL2 0x00]"
  unfolding lp5569_engine_halt_def [abs_def] by (rule writes_SR)

lemma writes_mem_page_select:
  "writes bus (lp5569_mem_page_select env bus is_mux)
     [SR LP5569_REG_PROG_MEM_PAGE_SELECT (if is_mux then 1 else 0)]"
  unfolding lp5569_mem_page_select_def [abs_def] Let_def by (rule writes_SR)

lemma writes_engine_run:
  "writes bus (lp5569_engine_run env bus)
     ([SR LP5569_REG_LED_ENGINE_CONTROL2 0x80] @ [SR LP5569_REG_LED_ENGINE_CONTROL1 0x80] @ [])"
  unfolding lp5569_engine_run_def [abs_def]
  by (intro writes_or_return writes_SR writes_return)

lemma writes_run_program_body:
  "writes bus
     (or_return (lp5569_engine_load_program env bus)
             ''failed to set engines to load program mode: %d\<newline>''
          (or_return (lp5569_mem_page_select env bus True)
             ''failed to select LED mux memory page: %d\<newline>''
          (or_return (lp5569_write_bulk env bus LP5569_REG_PROGRAM_MEM_00 mux mux_len)
             ''failed to write LED mux table to memory: %d\<newline>''
          (or_return (lp5569_mem_page_select env bus False)
             ''failed to select program memory page: %d\<newline>''
          (or_return (lp5569_write_bulk env bus LP5569_REG_PROGRAM_MEM_00 prog prog_len)
             ''failed to write program to memory: %d\<newline>''
          (or_return (lp5569_engine_halt env bus)
             ''failed to set engine to HALT mode: %d\<newline>''
          (or_return (lp5569_engine_run env bus)
             ''Failed to start engine program execution: %d\<newline>''
          (\<lambda>w. (0, w)))))))))
     (program_writes mux mux_len prog prog_len)"
proof -
  have "writes bus
     (or_return (lp5569_engine_load_program env bus)
             ''failed to set engines to load program mode: %d\<newline>''
          (or_return (lp5569_mem_page_select env bus True)
             ''failed to select LED mux memory page: %d\<newline>''
          (or_return (lp5569_write_bulk env bus LP5569_REG_PROGRAM_MEM_00 mux mux_len)
             ''failed to write LED mux table to memory: %d\<newline>''
          (or_return (lp5569_mem_page_select env bus False)
             ''failed to select program memory page: %d\<newline>''
          (or_return (lp5569_write_bulk env bus LP5569_REG_PROGRAM_MEM_00 prog prog_len)
             ''failed to write program to memory: %d\<newline>''
          (or_return (lp5569_engine_halt env bus)
             ''failed to set engine to HALT mode: %d\<newline>''
          (or_return (lp5569_engine_run env bus)
             ''Failed to start engine program execution: %d\<newline>''
          (\<lambda>w. (0, w)))))))))
     ([SR LP5569_REG_LED_ENGINE_CONTROL2 0x54] @
      [SR LP5569_REG_PROG_MEM_PAGE_SELECT (if True then 1 else 0)] @
      bulk_writes LP5569_REG_PROGRAM_MEM_00 mux 0 (unat mux_len) @
      [SR LP5569_REG_PROG_MEM_PAGE_SELECT (if False then 1 else 0)] @
      bulk_writes LP5569_REG_PROGRAM_MEM_00 prog 0 (unat prog_len) @
      [SR LP5569_REG_LED_ENGINE_CONTROL2 0x00] @
      ([SR LP5569_REG_LED_ENGINE_CONTROL2 0x80] @ [SR LP5569_REG_LED_ENGINE_CONTROL1 0x80] @ []) @
      [])"
    by (intro writes_or_return writes_engine_load_program writes_mem_page_select
          writes_bulk writes_engine_halt writes_engine_run writes_return)
  then show ?thesis
    by (simp add: program_writes_def bulk_writes_def SR_def)
qed

lemma lp5569_run_program_shape:
  assumes "unat mux_len \<le> 32" "unat prog_len \<le> 32"
  shows "\<exists>es. log (snd (lp5569_run_program env bus mux mux_len prog prog_len w)) =
        log w @ Call_lp5569_run_program mux mux_len prog prog_len # es \<and>
      list_all (i2c_event bus) es \<and>
      prefix (filter is_set_register es) (program_writes mux mux_len prog prog_len) \<and>
      (fst (lp5569_run_program env bus mux mux_len prog prog_len w) = 0 \<longrightarrow>
         filter is_set_register es = program_writes mux mux_len prog prog_len)"
  using assms
    writesE [OF writes_run_program_body,
      of env bus mux mux_len prog prog_len
         "mark (Call_lp5569_run_program mux mux_len prog prog_len) w"]
  by (simp add: lp5569_run_program_def LP5569_MAX_PROGRAM_LEN_def Let_def)

lemma length_led_prog: "length led_prog = 32"
  by (simp add: led_prog_def)

lemma i2c_event_not_run_program: "i2c_event bus e \<Longrightarrow> \<not> is_run_program e"
  by (cases e) simp_all

lemma writes_after_mark:
  "writes bus f xs \<Longrightarrow>
     \<exists>es. log (snd (f (mark e w))) = log w @ e # es \<and> list_all (i2c_event bus) es"
  using writesE [of bus f xs "mark e w"] by auto

lemma lp5569_init_shape:
  "\<exists>es. log (snd (lp5569_init env bus w)) = log w @ Call_lp5569_init # es \<and>
     list_all (i2c_event bus) es"
  unfolding lp5569_init_def
  by (rule writes_after_mark) (rule writes_or_return writes_SR writes_return)+

lemma bulk_loop_split:
  "i \<le> unat k \<Longrightarrow> k \<le> n \<Longrightarrow> fst (lp5569_write_bulk_loop env bus reg buf k i w) = 0 \<Longrightarrow>
     lp5569_write_bulk_loop env bus reg buf n i w =
     lp5569_write_bulk_loop env bus reg buf n (unat k) (snd (lp5569_write_bulk_loop env bus reg buf k i w))"
proof (induction "unat k - i" arbitrary: i w)
  case 0
  then have "i = unat k" by simp
  then show ?case by (simp add: lp5569_write_bulk_loop_done)
next
  case (Suc d)
  then have lt: "i < unat k" and d: "d = unat k - (i + 1)" by simp_all
  from lt Suc.prems(2) have ltn: "i < unat n"
    by (simp add: word_le_nat_alt)
  let ?s = "lp5569_set_register env bus (reg + of_nat i) (buf ! i)"
  have ok: "fst (?s w) = 0"
    using Suc.prems(3) unfolding lp5569_write_bulk_loop_step [OF lt]
    by (rule or_return_zero)
  have k: "lp5569_write_bulk_loop env bus reg buf k i w =
      lp5569_write_bulk_loop env bus reg buf k (i + 1) (snd (?s w))"
    unfolding lp5569_write_bulk_loop_step [OF lt] by (simp add: or_return_ok ok)
  have n: "lp5569_write_bulk_loop env bus reg buf n i w =
      lp5569_write_bulk_loop env bus reg buf n (i + 1) (snd (?s w))"
    unfolding lp5569_write_bulk_loop_step [OF ltn] by (simp add: or_return_ok ok)
  have "lp5569_write_bulk_loop env bus reg buf n (i + 1) (snd (?s w)) =
     lp5569_write_bulk_loop env bus reg buf n (unat k)
       (snd (lp5569_write_bulk_loop env bus reg buf k (i + 1) (snd (?s w))))"
    using Suc.hyps(1) [OF d _ Suc.prems(2)] lt Suc.prems(3) k by simp
  then show ?case by (simp add: k n)
qed

lemma bulk_loop_first_failure:
  "fst (lp5569_write_bulk_loop env bus reg buf n i w) \<noteq> 0 \<Longrightarrow>
     \<exists>k. i \<le> unat k \<and> k < n \<and> fst (lp5569_write_bulk_loop env bus reg buf k i w) = 0 \<and>
       fst (lp5569_set_register env bus (reg + k) (buf ! unat k)
              (snd (lp5569_write_bulk_loop env bus reg buf k i w))) \<noteq> 0"
proof (induction "unat n - i" arbitrary: i w)
  case 0
  then have "\<not> i < unat n" by simp
  with 0 show ?case by (simp add: lp5569_write_bulk_loop_done)
next
  case (Suc d)
  then have lt: "i < unat n" and d: "d = unat n - (i + 1)" by simp_all
  let ?s = "lp5569_set_register env bus (reg + of_nat i) (buf ! i)"
  have u: "unat (of_nat i :: u8) = i"
    using lt by (intro le_unat_uoi [of i n]) simp
  show ?case
  proof (cases "fst (?s w) = 0")
    case False
    have "(of_nat i :: u8) < n"
      using lt u by (simp add: word_less_nat_alt)
    moreover have "lp5569_write_bulk_loop env bus reg buf (of_nat i) i w = (0, w)"
      by (simp add: lp5569_write_bulk_loop_done u)
    ultimately show ?thesis
      using False u by (intro exI[of _ "of_nat i"]) simp
  next
    case True
    have n: "lp5569_write_bulk_loop env bus reg buf n i w =
        lp5569_write_bulk_loop env bus reg buf n (i + 1) (snd (?s w))"
      unfolding lp5569_write_bulk_loop_step [OF lt] by (simp add: or_return_ok True)
    with Suc.prems have "fst (lp5569_write_bulk_loop env bus reg buf n (i + 1) (snd (?s w))) \<noteq> 0"
      by simp
    from Suc.hyps(1) [OF d this] obtain k where k: "i + 1 \<le> unat k" "k < n"
        "fst (lp5569_write_bulk_loop env bus reg buf k (i + 1) (snd (?s w))) = 0"
        "fst (lp5569_set_register env bus (reg + k) (buf ! unat k)
              (snd (lp5569_write_bulk_loop env bus reg buf k (i + 1) (snd (?s w))))) \<noteq> 0"
      by blast
    from k(1) have ltk: "i < unat k" by simp
    have "lp5569_write_bulk_loop env bus reg buf k i w =
        lp5569_write_bulk_loop env bus reg buf k (i + 1) (snd (?s w))"
      unfolding lp5569_write_bulk_loop_step [OF ltk] by (simp add: or_return_ok True)
    with k ltk show ?thesis
      by (intro exI[of _ k]) simp
  qed
qed

lemma bulk_loop_fails_at:
  assumes "k < n"
    and "fst (lp5569_write_bulk env bus reg buf k w) = 0"
    and "fst (lp5569_set_register env bus (reg + k) (buf ! unat k)
           (snd (lp5569_write_bulk env bus reg buf k w))) \<noteq> 0"
  shows "lp5569_write_bulk env bus reg buf n w =
     or_return (lp5569_set_register env bus (reg + k) (buf ! unat k))
       ''failed to write register in bulk operation: %d\<newline>''
       (lp5569_write_bulk_loop env bus reg buf n (unat k + 1))
       (snd (lp5569_write_bulk env bus reg buf k w))"
proof -
  from assms(1) have le: "k \<le> n"
    by (rule order.strict_implies_order)
  from assms(1) have lt: "unat k < unat n"
    by (simp add: word_less_nat_alt)
  have "lp5569_write_bulk_loop env bus reg buf n 0 w =
     lp5569_write_bulk_loop env bus reg buf n (unat k)
       (snd (lp5569_write_bulk_loop env bus reg buf k 0 w))"
    using assms(2) by (intro bulk_loop_split le) (simp_all add: lp5569_write_bulk_def)
  then show ?thesis
    by (simp add: lp5569_write_bulk_def lp5569_write_bulk_loop_step [OF lt])
qed

subsection \<open>The retry loop and the command\<close>

lemma i2c_event_not_retry: "delay bus = 5 \<Longrightarrow> i2c_event bus e \<Longrightarrow> \<not> retry_event e"
  by (cases e) auto

lemma filter_retry_i2c:
  "delay bus = 5 \<Longrightarrow> list_all (i2c_event bus) es \<Longrightarrow> filter retry_event es = []"
  by (rule filter_none [where Q = "i2c_event bus"]) (auto dest: i2c_event_not_retry)

lemma retry_state_log:
  assumes "delay bus = 5"
  shows "\<exists>es. log (retry_state env bus w) = log w @ Call_lp5569_init # es @ [Udelay 100000] \<and>
     filter retry_event es = []"
proof -
  obtain es where "log (snd (lp5569_init env bus w)) = log w @ Call_lp5569_init # es"
      "list_all (i2c_event bus) es"
    using lp5569_init_shape by blast
  then show ?thesis
    using filter_retry_i2c [OF assms]
    by (intro exI[of _ es]) (simp add: retry_state_def case_prod_beta)
qed

lemma lp5569_play_tape_retry:
  assumes "delay bus = 5"
  shows "\<exists>es. log (snd (lp5569_play_tape env bus tape_index w)) =
       log w @ Call_lp5569_play_tape tape_index # es \<and> filter retry_event es = []"
proof (cases "2 \<le> unat tape_index")
  case True
  then show ?thesis
    by (simp add: lp5569_play_tape_def led_mux_tapes_def LP5569_MAX_PROGRAM_LEN_def Let_def)
next
  case False
  let ?w = "mark (Call_lp5569_play_tape tape_index) w"
  let ?r = "lp5569_run_program env bus (led_mux_tapes ! unat tape_index) 32 led_prog 32 ?w"
  obtain es where es: "log (snd ?r) = log ?w @
        Call_lp5569_run_program (led_mux_tapes ! unat tape_index) 32 led_prog 32 # es"
      "list_all (i2c_event bus) es"
    using lp5569_run_program_shape [of 32 32 env bus "led_mux_tapes ! unat tape_index" led_prog ?w]
    by auto
  have "log (snd (lp5569_play_tape env bus tape_index w)) = log (snd ?r)"
    using False
    by (simp add: lp5569_play_tape_def length_led_prog LP5569_MAX_PROGRAM_LEN_def Let_def
          case_prod_beta led_mux_tapes_def)
  with es show ?thesis
    using filter_retry_i2c [OF assms es(2)]
    by (intro exI[of _ "Call_lp5569_run_program (led_mux_tapes ! unat tape_index) 32 led_prog 32 # es"])
       simp
qed

lemma i2c_deinit_retry:
  "\<exists>es. log (snd (i2c_deinit env bus w)) = log w @ es \<and> filter retry_event es = []"
  by (simp add: i2c_deinit_def gpio_free_def extcall_def Let_def)

lemma lp5569_cmd_deinit_retry:
  "\<exists>es. log (snd (lp5569_cmd_deinit env bus ret w)) = log w @ es \<and> filter retry_event es = []"
proof -
  obtain es where "log (snd (i2c_deinit env bus w)) = log w @ es" "filter retry_event es = []"
    using i2c_deinit_retry by blast
  then show ?thesis
    by (cases "fst (i2c_deinit env bus w) = 0")
       (simp_all add: lp5569_cmd_deinit_def cmd_process_error_def extcall_def Let_def
          case_prod_beta)
qed

lemma i2c_init_shape:
  "fst (snd (i2c_init env w)) = \<lparr>scl = 3, sda = 2, delay = 5\<rparr> \<and>
   (\<exists>es. log (snd (snd (i2c_init env w))) = log w @ es \<and> filter retry_event es = [])"
  by (simp add: i2c_init_def gpio_request_def gpio_free_def extcall_def Let_def SCL_PIN_def
        SDA_PIN_def)

lemma lp5569_cmd_loop_fail:
  "i < 15 \<Longrightarrow> fst (lp5569_init env bus w) \<noteq> 0 \<Longrightarrow>
     lp5569_cmd_loop env bus i ret w =
     lp5569_cmd_loop env bus (i + 1) (fst (lp5569_init env bus w)) (retry_state env bus w)"
  by (subst lp5569_cmd_loop.simps) (simp add: retry_state_def case_prod_beta)

lemma lp5569_cmd_loop_ok:
  "i < 15 \<Longrightarrow> fst (lp5569_init env bus w) = 0 \<Longrightarrow>
     lp5569_cmd_loop env bus i ret w = (0, snd (lp5569_init env bus w))"
  by (subst lp5569_cmd_loop.simps) (simp add: case_prod_beta)

lemma lp5569_cmd_loop_done: "\<not> i < 15 \<Longrightarrow> lp5569_cmd_loop env bus i ret w = (ret, w)"
  by (subst lp5569_cmd_loop.simps) simp

lemma lp5569_cmd_loop_shape:
  assumes d5: "delay bus = 5"
  shows "i \<le> 15 \<Longrightarrow> (i = 15 \<longrightarrow> ret \<noteq> 0) \<Longrightarrow>
    \<exists>es k. log (snd (lp5569_cmd_loop env bus i ret w)) = log w @ es \<and>
      (fst (lp5569_cmd_loop env bus i ret w) = 0 \<and> k < 15 - i \<and>
         filter retry_event es =
           concat (replicate k [Call_lp5569_init, Udelay 100000]) @ [Call_lp5569_init]
       \<or> fst (lp5569_cmd_loop env bus i ret w) \<noteq> 0 \<and> k = 15 - i \<and>
         filter retry_event es = concat (replicate k [Call_lp5569_init, Udelay 100000]))"
proof (induction "15 - i" arbitrary: i ret w)
  case 0
  then have "i = 15" "ret \<noteq> 0" by simp_all
  then show ?case
    by (intro exI[of _ "[]"] exI[of _ 0]) (simp add: lp5569_cmd_loop_done)
next
  case (Suc d)
  then have lt: "i < 15" and d: "d = 15 - (i + 1)" by simp_all
  show ?case
  proof (cases "fst (lp5569_init env bus w) = 0")
    case True
    obtain es where "log (snd (lp5569_init env bus w)) = log w @ Call_lp5569_init # es"
        "list_all (i2c_event bus) es"
      using lp5569_init_shape by blast
    then show ?thesis
      using lt filter_retry_i2c [OF d5]
      by (intro exI[of _ "Call_lp5569_init # es"] exI[of _ 0])
         (simp add: lp5569_cmd_loop_ok [OF lt True])
  next
    case False
    note step = lp5569_cmd_loop_fail [OF lt False, of ret]
    obtain es where es: "log (retry_state env bus w) =
        log w @ Call_lp5569_init # es @ [Udelay 100000]" "filter retry_event es = []"
      using retry_state_log [OF d5] by blast
    from Suc.hyps(1) [OF d, of "fst (lp5569_init env bus w)" "retry_state env bus w"] lt False
    obtain es' k where k: "log (snd (lp5569_cmd_loop env bus i ret w)) =
          log (retry_state env bus w) @ es'"
       "fst (lp5569_cmd_loop env bus i ret w) = 0 \<and> k < 15 - (i + 1) \<and>
         filter retry_event es' =
           concat (replicate k [Call_lp5569_init, Udelay 100000]) @ [Call_lp5569_init]
       \<or> fst (lp5569_cmd_loop env bus i ret w) \<noteq> 0 \<and> k = 15 - (i + 1) \<and>
         filter retry_event es' = concat (replicate k [Call_lp5569_init, Udelay 100000])"
      unfolding step by auto
    from k(2) show ?thesis
    proof
      assume "fst (lp5569_cmd_loop env bus i ret w) = 0 \<and> k < 15 - (i + 1) \<and>
         filter retry_event es' =
           concat (replicate k [Call_lp5569_init, Udelay 100000]) @ [Call_lp5569_init]"
      with k(1) es lt show ?thesis
        by (intro exI[of _ "Call_lp5569_init # es @ [Udelay 100000] @ es'"] exI[of _ "Suc k"])
           auto
    next
      assume "fst (lp5569_cmd_loop env bus i ret w) \<noteq> 0 \<and> k = 15 - (i + 1) \<and>
         filter retry_event es' = concat (replicate k [Call_lp5569_init, Udelay 100000])"
      with k(1) es lt show ?thesis
        by (intro exI[of _ "Call_lp5569_init # es @ [Udelay 100000] @ es'"] exI[of _ "Suc k"])
           auto
    qed
  qed
qed

lemma lp5569_cmd_unfold:
  assumes "i2c_init env w = (0, bus, w1)"
  shows "lp5569_cmd env tape_index w =
    (let l = lp5569_cmd_loop env bus 0 0 w1 in
     if fst l \<noteq> 0 then lp5569_cmd_deinit env bus (fst l) (snd l)
     else let p = lp5569_play_tape env bus tape_index (snd l) in
       if fst p \<noteq> 0
       then lp5569_cmd_deinit env bus (fst p)
              (printf ''failed to play tape: %d\<newline>'' [fst p] (snd p))
       else lp5569_cmd_deinit env bus (fst p) (snd p))"
  using assms by (simp add: lp5569_cmd_def Let_def case_prod_beta)

lemma lp5569_cmd_tail:
  assumes d5: "delay bus = 5" and i: "i2c_init env w = (0, bus, w1)"
    and l: "lp5569_cmd_loop env bus 0 0 w1 = (r, wl)"
  shows "\<exists>es. log (snd (lp5569_cmd env tape_index w)) = log wl @ es \<and>
     filter retry_event es = (if r \<noteq> 0 then [] else [Call_lp5569_play_tape tape_index])"
proof (cases "r = 0")
  case False
  obtain es where "log (snd (lp5569_cmd_deinit env bus r wl)) = log wl @ es"
      "filter retry_event es = []"
    using lp5569_cmd_deinit_retry by blast
  with False show ?thesis
    by (intro exI[of _ es]) (simp add: lp5569_cmd_unfold [OF i] l)
next
  case True
  let ?p = "lp5569_play_tape env bus tape_index wl"
  obtain ep where ep: "log (snd ?p) = log wl @ Call_lp5569_play_tape tape_index # ep"
      "filter retry_event ep = []"
    using lp5569_play_tape_retry [OF d5] by blast
  let ?wp = "if fst ?p \<noteq> 0 then printf ''failed to play tape: %d\<newline>'' [fst ?p] (snd ?p)
             else snd ?p"
  obtain ed where ed: "log (snd (lp5569_cmd_deinit env bus (fst ?p) ?wp)) = log ?wp @ ed"
      "filter retry_event ed = []"
    using lp5569_cmd_deinit_retry by blast
  have "lp5569_cmd env tape_index w = lp5569_cmd_deinit env bus (fst ?p) ?wp"
    using True by (simp add: lp5569_cmd_unfold [OF i] l Let_def)
  with ep ed True show ?thesis
    by (intro exI[of _ "Call_lp5569_play_tape tape_index # ep @ ed"]) simp
qed

lemma concat_replicate_Suc_end: "concat (replicate k xs) @ xs = concat (replicate (Suc k) xs)"
  by (induction k) simp_all

lemma retry_state_funpow_log:
  assumes "delay bus = 5"
  shows "\<exists>es. log ((retry_state env bus ^^ k) w) = log w @ es \<and>
     filter retry_event es = concat (replicate k [Call_lp5569_init, Udelay 100000])"
proof (induction k)
  case 0
  show ?case by simp
next
  case (Suc k)
  then obtain es where es: "log ((retry_state env bus ^^ k) w) = log w @ es"
      "filter retry_event es = concat (replicate k [Call_lp5569_init, Udelay 100000])"
    by blast
  obtain e where e: "log (retry_state env bus ((retry_state env bus ^^ k) w)) =
      log ((retry_state env bus ^^ k) w) @ Call_lp5569_init # e @ [Udelay 100000]"
      "filter retry_event e = []"
    using retry_state_log [OF assms] by blast
  have "filter retry_event (es @ Call_lp5569_init # e @ [Udelay 100000]) =
      concat (replicate k [Call_lp5569_init, Udelay 100000]) @ [Call_lp5569_init, Udelay 100000]"
    using es(2) e(2) by simp
  then have "filter retry_event (es @ Call_lp5569_init # e @ [Udelay 100000]) =
      concat (replicate (Suc k) [Call_lp5569_init, Udelay 100000])"
    by (simp only: concat_replicate_Suc_end)
  with es(1) e(1) show ?case
    by (intro exI[of _ "es @ Call_lp5569_init # e @ [Udelay 100000]"]) simp
qed

lemma lp5569_cmd_loop_funpow:
  "(\<And>j. j < k \<Longrightarrow> fst (lp5569_init env bus ((retry_state env bus ^^ j) w)) \<noteq> 0) \<Longrightarrow>
   i + k \<le> 15 \<Longrightarrow>
   \<exists>r. lp5569_cmd_loop env bus i ret w =
          lp5569_cmd_loop env bus (i + k) r ((retry_state env bus ^^ k) w) \<and>
       (k = 0 \<longrightarrow> r = ret) \<and> (0 < k \<longrightarrow> r \<noteq> 0)"
proof (induction k arbitrary: i ret w)
  case 0
  show ?case by simp
next
  case (Suc k)
  from Suc.prems(1) [of 0] have f: "fst (lp5569_init env bus w) \<noteq> 0" by simp
  from Suc.prems(2) have lt: "i < 15" by simp
  have "fst (lp5569_init env bus ((retry_state env bus ^^ j) (retry_state env bus w))) \<noteq> 0"
    if "j < k" for j
    using Suc.prems(1) [of "Suc j"] that by (simp add: funpow_swap1)
  from Suc.IH [OF this, of "i + 1" "fst (lp5569_init env bus w)"] Suc.prems(2)
  obtain r where r: "lp5569_cmd_loop env bus (i + 1) (fst (lp5569_init env bus w))
        (retry_state env bus w) =
      lp5569_cmd_loop env bus (i + 1 + k) r ((retry_state env bus ^^ k) (retry_state env bus w))"
      "k = 0 \<longrightarrow> r = fst (lp5569_init env bus w)" "0 < k \<longrightarrow> r \<noteq> 0"
    by auto
  from r f show ?case
    by (intro exI[of _ r]) (auto simp add: lp5569_cmd_loop_fail [OF lt f] funpow_swap1)
qed

lemma lp5569_cmd_loop_all_fail:
  assumes "\<And>w. fst (lp5569_init env bus w) = - 1"
  shows "i < 15 \<Longrightarrow> fst (lp5569_cmd_loop env bus i ret w) = - 1"
proof (induction "15 - i" arbitrary: i ret w)
  case 0
  then show ?case by simp
next
  case (Suc d)
  have f: "fst (lp5569_init env bus w) \<noteq> 0" by (simp add: assms)
  show ?case
  proof (cases "i + 1 < 15")
    case True
    with Suc show ?thesis
      by (simp add: lp5569_cmd_loop_fail [OF Suc.prems f])
  next
    case False
    with Suc.prems show ?thesis
      by (simp add: lp5569_cmd_loop_fail [OF Suc.prems f] lp5569_cmd_loop_done assms)
  qed
qed

lemma lp5569_cmd_acquired_retries:
  assumes "i2c_init env w = (0, bus, w1)"
  shows "\<exists>es. log (snd (lp5569_cmd env tape_index w)) = log w @ es \<and>
     (\<exists>k. k < 15 \<and> filter retry_event es =
             concat (replicate k [Call_lp5569_init, Udelay (100 * 1000)]) @
             [Call_lp5569_init, Call_lp5569_play_tape tape_index]
          \<or> k = 15 \<and> filter retry_event es =
             concat (replicate k [Call_lp5569_init, Udelay (100 * 1000)])) \<and>
     (\<forall>k<15. (\<forall>j<k. fst (lp5569_init env bus ((retry_state env bus ^^ j) w1)) \<noteq> 0) \<and>
          fst (lp5569_init env bus ((retry_state env bus ^^ k) w1)) = 0 \<longrightarrow>
        filter retry_event es =
          concat (replicate k [Call_lp5569_init, Udelay (100 * 1000)]) @
          [Call_lp5569_init, Call_lp5569_play_tape tape_index]) \<and>
     ((\<forall>j<15. fst (lp5569_init env bus ((retry_state env bus ^^ j) w1)) \<noteq> 0) \<longrightarrow>
        filter retry_event es = concat (replicate 15 [Call_lp5569_init, Udelay (100 * 1000)])) \<and>
     (fst (lp5569_init env bus w1) \<noteq> 0 \<and>
      fst (lp5569_init env bus (retry_state env bus w1)) \<noteq> 0 \<and>
      fst (lp5569_init env bus (retry_state env bus (retry_state env bus w1))) = 0 \<longrightarrow>
        filter retry_event es =
          [Call_lp5569_init, Udelay (100 * 1000), Call_lp5569_init, Udelay (100 * 1000),
           Call_lp5569_init, Call_lp5569_play_tape tape_index])"
proof -
  from assms i2c_init_shape [of env w] have d5: "delay bus = 5"
    and "\<exists>es. log w1 = log w @ es \<and> filter retry_event es = []"
    by auto
  then obtain e0 where e0: "log w1 = log w @ e0" "filter retry_event e0 = []"
    by blast
  obtain r wl where l: "lp5569_cmd_loop env bus 0 0 w1 = (r, wl)"
    by (cases "lp5569_cmd_loop env bus 0 0 w1")
  obtain el k where el: "log wl = log w1 @ el"
    "r = 0 \<and> k < 15 \<and> filter retry_event el =
         concat (replicate k [Call_lp5569_init, Udelay 100000]) @ [Call_lp5569_init]
     \<or> r \<noteq> 0 \<and> k = 15 \<and> filter retry_event el =
         concat (replicate k [Call_lp5569_init, Udelay 100000])"
    using lp5569_cmd_loop_shape [OF d5, of 0 0 env w1] l by auto
  obtain et where et: "log (snd (lp5569_cmd env tape_index w)) = log wl @ et"
    "filter retry_event et = (if r \<noteq> 0 then [] else [Call_lp5569_play_tape tape_index])"
    using lp5569_cmd_tail [OF d5 assms l] by blast
  let ?es = "e0 @ el @ et"
  let ?rs = "retry_state env bus"
  have 1: "log (snd (lp5569_cmd env tape_index w)) = log w @ ?es"
    using e0 el et by simp
  have 2: "\<exists>k. k < 15 \<and> filter retry_event ?es =
         concat (replicate k [Call_lp5569_init, Udelay (100 * 1000)]) @
         [Call_lp5569_init, Call_lp5569_play_tape tape_index]
      \<or> k = 15 \<and> filter retry_event ?es =
         concat (replicate k [Call_lp5569_init, Udelay (100 * 1000)])"
    using e0(2) el(2) et(2) by (intro exI[of _ k]) auto
  have A: "filter retry_event ?es =
          concat (replicate n [Call_lp5569_init, Udelay (100 * 1000)]) @
          [Call_lp5569_init, Call_lp5569_play_tape tape_index]"
    if n: "n < 15" and f: "\<And>j. j < n \<Longrightarrow> fst (lp5569_init env bus ((?rs ^^ j) w1)) \<noteq> 0"
      and s: "fst (lp5569_init env bus ((?rs ^^ n) w1)) = 0" for n
  proof -
    from lp5569_cmd_loop_funpow [of n env bus w1 0 0, OF f] n
    obtain r' where "lp5569_cmd_loop env bus 0 0 w1 = lp5569_cmd_loop env bus n r' ((?rs ^^ n) w1)"
      by auto
    with l have r: "r = 0" and wl: "wl = snd (lp5569_init env bus ((?rs ^^ n) w1))"
      by (simp_all add: lp5569_cmd_loop_ok [OF n s])
    obtain en where en: "log ((?rs ^^ n) w1) = log w1 @ en"
        "filter retry_event en = concat (replicate n [Call_lp5569_init, Udelay 100000])"
      using retry_state_funpow_log [OF d5] by blast
    obtain e3 where e3: "log wl = log ((?rs ^^ n) w1) @ Call_lp5569_init # e3"
        "filter retry_event e3 = []"
      unfolding wl using lp5569_init_shape [of env bus "(?rs ^^ n) w1"] filter_retry_i2c [OF d5]
      by blast
    have "log w1 @ el = log w1 @ en @ Call_lp5569_init # e3"
      using el(1) en(1) e3(1) by simp
    then have "el = en @ Call_lp5569_init # e3" by simp
    then show ?thesis
      using e0(2) en(2) e3(2) et(2) r by simp
  qed
  have B: "filter retry_event ?es = concat (replicate 15 [Call_lp5569_init, Udelay (100 * 1000)])"
    if f: "\<And>j. j < 15 \<Longrightarrow> fst (lp5569_init env bus ((?rs ^^ j) w1)) \<noteq> 0"
  proof -
    from lp5569_cmd_loop_funpow [of 15 env bus w1 0 0, OF f]
    obtain r' where "lp5569_cmd_loop env bus 0 0 w1 = lp5569_cmd_loop env bus 15 r' ((?rs ^^ 15) w1)"
      "r' \<noteq> 0"
      by auto
    with l have r: "r \<noteq> 0" and wl: "wl = (?rs ^^ 15) w1"
      by (simp_all add: lp5569_cmd_loop_done)
    obtain en where en: "log ((?rs ^^ 15) w1) = log w1 @ en"
        "filter retry_event en = concat (replicate 15 [Call_lp5569_init, Udelay 100000])"
      using retry_state_funpow_log [OF d5] by blast
    have "log w1 @ el = log w1 @ en"
      using el(1) en(1) wl by simp
    then have "el = en" by simp
    then show ?thesis
      using e0(2) en(2) et(2) r by simp
  qed
  have 3: "filter retry_event ?es =
          [Call_lp5569_init, Udelay (100 * 1000), Call_lp5569_init, Udelay (100 * 1000),
           Call_lp5569_init, Call_lp5569_play_tape tape_index]"
    if f1: "fst (lp5569_init env bus w1) \<noteq> 0"
      and f2: "fst (lp5569_init env bus (?rs w1)) \<noteq> 0"
      and s3: "fst (lp5569_init env bus (?rs (?rs w1))) = 0"
  proof -
    have "fst (lp5569_init env bus ((?rs ^^ j) w1)) \<noteq> 0" if "j < Suc (Suc 0)" for j
      using that f1 f2 by (cases j) auto
    from A [of "Suc (Suc 0)", OF _ this] s3 show ?thesis by simp
  qed
  show ?thesis
    using 1 2 A B 3 by (intro exI[of _ ?es]) blast
qed

lemma filter_init_retry:
  "filter (\<lambda>e. e = Call_lp5569_init) es = filter (\<lambda>e. e = Call_lp5569_init) (filter retry_event es)"
  by (induction es) auto

lemma filter_init_replicate:
  "filter (\<lambda>e. e = Call_lp5569_init) (concat (replicate k [Call_lp5569_init, Udelay 100000])) =
     replicate k Call_lp5569_init"
  by (induction k) simp_all

lemma count_init_attempts:
  assumes "k < 15 \<and> F = concat (replicate k [Call_lp5569_init, Udelay 100000]) @
             [Call_lp5569_init, Call_lp5569_play_tape i]
           \<or> k = 15 \<and> F = concat (replicate k [Call_lp5569_init, Udelay 100000])"
  shows "length (filter (\<lambda>e. e = Call_lp5569_init) F) \<le> 15"
  using assms by (auto simp: filter_init_replicate)

lemma lp5569_cmd_not_acquired:
  assumes "fst (i2c_init env w) \<noteq> 0"
  shows "\<exists>es. log (snd (lp5569_cmd env tape_index w)) = log w @ es \<and> filter retry_event es = []"
proof -
  obtain es where es: "log (snd (snd (i2c_init env w))) = log w @ es" "filter retry_event es = []"
    using i2c_init_shape [of env w] by blast
  with assms show ?thesis
    by (intro exI[of _ "es @ [Cmd_process_error (fst (i2c_init env w))]"])
       (simp add: lp5569_cmd_def case_prod_beta cmd_process_error_def extcall_def Let_def)
qed

subsection \<open>A chip on the bus\<close>

lemma reply_chip [simp]:
  "reply (chip N) (l @ [Gpio_direction_output p v]) = 0"
  "reply (chip N) (l @ [Gpio_direction_input p]) = 0"
  "reply (chip N) (l @ [Gpio_get_value p]) = (if N (l @ [Gpio_get_value p]) then 1 else 0)"
  "reply (chip N) (l @ [Gpio_request p s]) = 0"
  "reply (chip N) (l @ [Gpio_free p]) = 0"
  by (simp_all add: chip_def)

lemma gpio_write_chip:
  "gpio_write (chip N) p b w = (0, w\<lparr>log := log w @ [Gpio_direction_output p b]\<rparr>)"
  by (simp add: gpio_write_def gpio_direction_output_def extcall_def Let_def)

lemma gpio_read_chip:
  "gpio_read (chip N) p w =
     (if N (log w @ [Gpio_direction_input p, Gpio_get_value p]) then 1 else 0,
      w\<lparr>log := log w @ [Gpio_direction_input p, Gpio_get_value p]\<rparr>)"
  by (simp add: gpio_read_def gpio_direction_input_def gpio_get_value_def extcall_def Let_def)

lemma i2c_start_chip: "i2c_start (chip N) bus w = w\<lparr>log := log w @ start_events bus\<rparr>"
  by (simp add: i2c_start_def start_events_def Let_def set_sda_def set_scl_def gpio_write_chip
        udelay_def mark_def)

lemma i2c_stop_chip: "i2c_stop (chip N) bus w = w\<lparr>log := log w @ stop_events bus\<rparr>"
  by (simp add: i2c_stop_def stop_events_def Let_def set_sda_def set_scl_def gpio_write_chip
        udelay_def mark_def)

lemma i2c_write_bit_chip:
  "i2c_write_bit (chip N) bus b w = w\<lparr>log := log w @ write_bit_events bus b\<rparr>"
  by (simp add: i2c_write_bit_def write_bit_events_def Let_def set_sda_def set_scl_def
        gpio_write_chip udelay_def mark_def)

lemma i2c_write_byte_loop_chip:
  "snd (i2c_write_byte_loop (chip N) bus j data w) =
     w\<lparr>log := log w @
       concat (map (\<lambda>i. write_bit_events bus (push_bit i data AND 0x80)) [0..<8 - j])\<rparr>"
proof (induction "chip N" bus j data w rule: i2c_write_byte_loop.induct)
  case (1 bus j data w)
  show ?case
  proof (cases "j < 8")
    case True
    then have "[0..<8 - j] = 0 # map Suc [0..<8 - (j + 1)]"
      by (metis Suc_diff_Suc Suc_eq_plus1 map_Suc_upt upt_conv_Cons zero_less_diff)
    with True 1 show ?thesis
      by (subst i2c_write_byte_loop.simps)
         (simp add: i2c_write_bit_chip comp_def push_bit_push_bit flip: push_bit_Suc)
  next
    case False
    then show ?thesis by (subst i2c_write_byte_loop.simps) simp
  qed
qed

lemma i2c_write_byte_chip:
  "i2c_write_byte (chip N) bus d w =
     (if N (log w @ byte_pre bus d) then 1 else 0, w\<lparr>log := log w @ byte_events bus d\<rparr>)"
  by (simp add: i2c_write_byte_def i2c_sda_high_def i2c_read_bit_def get_sda_def set_sda_def
        set_scl_def gpio_write_chip gpio_read_chip udelay_def mark_def Let_def case_prod_beta
        i2c_write_byte_loop_chip byte_pre_def byte_events_def data_bits_def comp_def)

lemma i2c_set_register_chip:
  "i2c_set_register (chip N) bus a r v w =
     (let l = log w @ Call_i2c_set_register a r v # start_events bus in
      if N (l @ byte_pre bus a)
      then (- 1, w\<lparr>log := l @ byte_events bus a @ stop_events bus,
                   console := console w @
                     [(''i2c: writing address %02X failed: %d\<newline>'', [uint a, 1])]\<rparr>)
      else if N (l @ byte_events bus a @ byte_pre bus r)
      then (- 1, w\<lparr>log := l @ byte_events bus a @ byte_events bus r @ stop_events bus,
                   console := console w @
                     [(''i2c: Writing register %u failed: %d\<newline>'', [uint r, 1])]\<rparr>)
      else if N (l @ byte_events bus a @ byte_events bus r @ byte_pre bus v)
      then (- 1, w\<lparr>log := l @ byte_events bus a @ byte_events bus r @ byte_events bus v @
                     stop_events bus,
                   console := console w @ [(''Writing I2C value failed\<newline>'', [])]\<rparr>)
      else (0, w\<lparr>log := l @ byte_events bus a @ byte_events bus r @ byte_events bus v @
                     stop_events bus\<rparr>))"
  by (simp add: i2c_set_register_def i2c_write_byte_chip i2c_start_chip i2c_stop_chip
        mark_def printf_def Let_def)

lemma filter_write_bit_frames:
  "filter is_get_value (concat (map (write_bit_events bus) bs)) = []"
  "filter is_write_byte (concat (map (write_bit_events bus) bs)) = []"
  by (induction bs) (simp_all add: write_bit_events_def)

lemma filter_start_stop_events [simp]:
  "filter is_get_value (start_events bus) = []"
  "filter is_get_value (stop_events bus) = []"
  "filter is_write_byte (start_events bus) = []"
  "filter is_write_byte (stop_events bus) = []"
  by (simp_all add: start_events_def stop_events_def)

lemma filter_byte_events [simp]:
  "length (filter is_get_value (byte_pre bus d)) = 2"
  "length (filter is_get_value (byte_events bus d)) = 2"
  "filter is_write_byte (byte_events bus d) = [Call_i2c_write_byte d]"
  by (simp_all add: byte_pre_def byte_events_def filter_write_bit_frames)

lemma filter_set_register_events [simp]:
  "filter is_set_register (start_events bus) = []"
  "filter is_set_register (stop_events bus) = []"
  "filter is_set_register (byte_events bus d) = []"
proof -
  have "filter is_set_register (concat (map (write_bit_events bus) bs)) = []" for bs
    by (induction bs) (simp_all add: write_bit_events_def)
  then show "filter is_set_register (byte_events bus d) = []"
    by (simp add: byte_events_def byte_pre_def)
qed (simp_all add: start_events_def stop_events_def)

lemma succeedsD: "succeeds I f \<Longrightarrow> I w \<Longrightarrow> fst (f w) = 0 \<and> I (snd (f w))"
  by (simp add: succeeds_def)

lemma succeeds_return: "succeeds I (\<lambda>w. (0, w))"
  by (simp add: succeeds_def)

lemma succeeds_or_return:
  "succeeds I f \<Longrightarrow> succeeds I k \<Longrightarrow> succeeds I (or_return f fmt k)"
  by (simp add: succeeds_def or_return_def case_prod_beta)

lemma quiet_append: "quiet N w \<Longrightarrow> log w' = log w @ es \<Longrightarrow> quiet N w'"
  unfolding quiet_def by (metis append.assoc)

lemma succeeds_set_register_chip:
  "succeeds (quiet N) (lp5569_set_register (chip N) bus r v)"
  unfolding succeeds_def
proof (intro allI impI)
  fix w assume q: "quiet N w"
  let ?l = "Call_i2c_set_register LP5569_I2C_ADDR r v # start_events bus"
  from q have
    "\<not> N (log w @ (?l @ byte_pre bus LP5569_I2C_ADDR))"
    "\<not> N (log w @ (?l @ byte_events bus LP5569_I2C_ADDR @ byte_pre bus r))"
    "\<not> N (log w @ (?l @ byte_events bus LP5569_I2C_ADDR @ byte_events bus r @ byte_pre bus v))"
    unfolding quiet_def by blast+
  then have e: "lp5569_set_register (chip N) bus r v w =
      (0, w\<lparr>log := log w @ (?l @ byte_events bus LP5569_I2C_ADDR @ byte_events bus r @
         byte_events bus v @ stop_events bus)\<rparr>)"
    by (simp add: lp5569_set_register_def i2c_set_register_chip Let_def)
  show "fst (lp5569_set_register (chip N) bus r v w) = 0 \<and>
      quiet N (snd (lp5569_set_register (chip N) bus r v w))"
    unfolding e using quiet_append [OF q] by simp
qed

lemma succeeds_bulk_loop:
  assumes "\<And>r v. succeeds I (lp5569_set_register env bus r v)"
  shows "succeeds I (lp5569_write_bulk_loop env bus reg buf n i)"
proof (induction "unat n - i" arbitrary: i)
  case 0
  then have "\<not> i < unat n" by simp
  then show ?case
    by (simp add: lp5569_write_bulk_loop_done succeeds_return)
next
  case (Suc d)
  then have lt: "i < unat n" and d: "d = unat n - (i + 1)" by simp_all
  show ?case
    unfolding lp5569_write_bulk_loop_step [OF lt]
    by (intro succeeds_or_return assms Suc.hyps(1) [OF d])
qed

lemma succeeds_bulk:
  assumes "\<And>r v. succeeds I (lp5569_set_register env bus r v)"
  shows "succeeds I (lp5569_write_bulk env bus reg buf n)"
  using succeeds_bulk_loop [OF assms, of reg buf n 0]
  by (simp add: lp5569_write_bulk_def [abs_def])

lemma succeeds_run_program:
  assumes s: "\<And>r v. succeeds I (lp5569_set_register env bus r v)"
    and m: "\<And>e w. I w \<Longrightarrow> I (mark e w)"
    and len: "unat mux_len \<le> 32" "unat prog_len \<le> 32"
  shows "succeeds I (lp5569_run_program env bus mux mux_len prog prog_len)"
proof -
  have b: "succeeds I
     (or_return (lp5569_engine_load_program env bus)
             ''failed to set engines to load program mode: %d\<newline>''
          (or_return (lp5569_mem_page_select env bus True)
             ''failed to select LED mux memory page: %d\<newline>''
          (or_return (lp5569_write_bulk env bus LP5569_REG_PROGRAM_MEM_00 mux mux_len)
             ''failed to write LED mux table to memory: %d\<newline>''
          (or_return (lp5569_mem_page_select env bus False)
             ''failed to select program memory page: %d\<newline>''
          (or_return (lp5569_write_bulk env bus LP5569_REG_PROGRAM_MEM_00 prog prog_len)
             ''failed to write program to memory: %d\<newline>''
          (or_return (lp5569_engine_halt env bus)
             ''failed to set engine to HALT mode: %d\<newline>''
          (or_return (lp5569_engine_run env bus)
             ''Failed to start engine program execution: %d\<newline>''
          (\<lambda>w. (0, w)))))))))"
    unfolding lp5569_engine_load_program_def [abs_def] lp5569_mem_page_select_def [abs_def]
      lp5569_engine_halt_def [abs_def] lp5569_engine_run_def [abs_def] Let_def
    by (intro succeeds_or_return succeeds_return s succeeds_bulk)
  show ?thesis
    unfolding succeeds_def
    using len succeedsD [OF b m]
    by (simp add: lp5569_run_program_def LP5569_MAX_PROGRAM_LEN_def Let_def)
qed

lemma quiet_mark: "quiet N w \<Longrightarrow> quiet N (mark e w)"
  by (rule quiet_append [where es = "[e]"]) simp_all

lemma quiet_False: "quiet (\<lambda>l. False) w"
  by (simp add: quiet_def)

lemma succeeds_run_program_chip:
  assumes "unat mux_len \<le> 32" "unat prog_len \<le> 32"
  shows "succeeds (quiet N) (lp5569_run_program (chip N) bus mux mux_len prog prog_len)"
  by (rule succeeds_run_program) (simp_all add: succeeds_set_register_chip quiet_mark assms)

lemma long_delays_append [simp]: "long_delays (a @ b) = long_delays a + long_delays b"
  and long_delays_Nil [simp]: "long_delays [] = 0"
  and long_delays_Cons [simp]:
    "long_delays (e # l) = (if e = Udelay 100000 then 1 else 0) + long_delays l"
  by (simp_all add: long_delays_def)

lemma long_delays_no_retry: "filter retry_event es = [] \<Longrightarrow> long_delays es = 0"
  by (induction es) (auto split: if_splits)

lemma i2c_event_byte_events:
  "list_all (i2c_event bus) (byte_pre bus d)" "list_all (i2c_event bus) (byte_events bus d)"
proof -
  have "list_all (i2c_event bus) (concat (map (write_bit_events bus) bs))" for bs
    by (induction bs) (simp_all add: write_bit_events_def)
  then show "list_all (i2c_event bus) (byte_pre bus d)" "list_all (i2c_event bus) (byte_events bus d)"
    by (simp_all add: byte_pre_def byte_events_def)
qed

lemma long_delays_i2c [simp]:
  assumes "delay bus = 5"
  shows "long_delays (start_events bus) = 0" "long_delays (stop_events bus) = 0"
    "long_delays (byte_pre bus d) = 0" "long_delays (byte_events bus d) = 0"
  using assms
  by (simp_all add: long_delays_no_retry filter_retry_i2c i2c_event_byte_events
        i2c_event_start_events i2c_event_stop_events)

lemma long_delays_retry_state:
  "delay bus = 5 \<Longrightarrow> long_delays (log (retry_state env bus w)) = long_delays (log w) + 1"
  using retry_state_log [of bus env w] by (auto simp: long_delays_no_retry)

lemma lp5569_init_nack:
  assumes "N (log w @ Call_lp5569_init #
      Call_i2c_set_register LP5569_I2C_ADDR LP5569_REG_RESET 0xFF # start_events bus @
      byte_pre bus LP5569_I2C_ADDR)"
  shows "fst (lp5569_init (chip N) bus w) = - 1"
proof -
  have "fst (lp5569_set_register (chip N) bus LP5569_REG_RESET 0xFF (mark Call_lp5569_init w)) = - 1"
    using assms by (simp add: lp5569_set_register_def i2c_set_register_chip Let_def)
  then show ?thesis
    by (simp add: lp5569_init_def or_return_fail)
qed

lemma succeeds_after_mark:
  "succeeds I f \<Longrightarrow> (\<And>w. I w \<Longrightarrow> I (mark e w)) \<Longrightarrow> I w \<Longrightarrow> fst (f (mark e w)) = 0"
  by (simp add: succeeds_def)

lemma succeeds_init_chip:
  assumes "quiet N w"
  shows "fst (lp5569_init (chip N) bus w) = 0"
  unfolding lp5569_init_def
proof (rule succeeds_after_mark [where I = "quiet N"])
  show "quiet N w" by (rule assms)
qed ((rule succeeds_or_return succeeds_set_register_chip succeeds_return)+, rule quiet_mark)

lemma quiet_settling: "2 \<le> long_delays (log w) \<Longrightarrow> quiet settling w"
  by (simp add: quiet_def settling_def)

lemma i2c_init_chip: "i2c_init (chip N) w0 = (0, bus0, w_acquired)"
  by (simp add: i2c_init_def gpio_request_def extcall_def Let_def SCL_PIN_def SDA_PIN_def
        bus0_def w0_def w_acquired_def chip_def)

lemma delay_bus0 [simp]: "delay bus0 = 5"
  by (simp add: bus0_def)

lemma lp5569_cmd_deinit_chip: "fst (lp5569_cmd_deinit (chip N) bus ret w) = 0"
  by (simp add: lp5569_cmd_deinit_def i2c_deinit_def gpio_free_def extcall_def Let_def)

subsection \<open>Acknowledged bytes\<close>

lemma acknowledges_append:
  "acknowledges env bus w \<Longrightarrow> \<exists>es. log w' = log w @ es \<Longrightarrow> acknowledges env bus w'"
  unfolding acknowledges_def by (metis append.assoc)

lemma acknowledges_mark: "acknowledges env bus w \<Longrightarrow> acknowledges env bus (mark e w)"
  by (rule acknowledges_append, assumption, rule exI [of _ "[e]"], simp)

lemma acknowledges_chip: "quiet N w \<Longrightarrow> acknowledges (chip N) bus w"
proof -
  assume q: "quiet N w"
  have "reply (chip N) ((log w @ es) @ [Gpio_direction_input (sda bus)]) = 0" for es
    by (rule reply_chip)
  moreover have "reply (chip N) ((log w @ es) @ [Gpio_get_value (sda bus)]) = 0" for es
    using q [unfolded quiet_def, rule_format, of "es @ [Gpio_get_value (sda bus)]"]
    by (simp only: reply_chip append_assoc [symmetric] if_False)
  ultimately show ?thesis
    unfolding acknowledges_def by simp
qed

lemma gpio_read_acknowledged:
  assumes "acknowledges env bus w"
  shows "fst (gpio_read env (sda bus) w) = 0"
proof -
  from assms have "reply env (log w @ [] @ [Gpio_direction_input (sda bus)]) = 0"
    "reply env (log w @ [Gpio_direction_input (sda bus)] @ [Gpio_get_value (sda bus)]) = 0"
    unfolding acknowledges_def by blast+
  then show ?thesis
    by (simp add: gpio_read_def gpio_direction_input_def gpio_get_value_def extcall_def Let_def)
qed

lemma i2c_read_bit_acknowledged:
  assumes "acknowledges env bus w"
  shows "fst (i2c_read_bit env bus w) = 0"
proof -
  let ?w = "udelay (delay bus) (set_scl env bus 1 (mark Call_i2c_read_bit w))"
  have "acknowledges env bus ?w"
    by (rule acknowledges_append [OF assms]) (simp add: set_scl_def)
  from gpio_read_acknowledged [OF this] show ?thesis
    by (simp add: i2c_read_bit_def get_sda_def Let_def case_prod_beta)
qed

lemma i2c_write_byte_acknowledged:
  assumes "acknowledges env bus w"
  shows "fst (i2c_write_byte env bus data w) = 0 \<and>
    acknowledges env bus (snd (i2c_write_byte env bus data w))"
proof -
  let ?w1 = "snd (i2c_write_byte_loop env bus 0 data (mark (Call_i2c_write_byte data) w))"
  let ?w2 = "i2c_sda_high env bus (udelay (delay bus) ?w1)"
  obtain es1 where "log ?w2 = log (udelay (delay bus) ?w1) @ Call_i2c_sda_high # es1"
    using i2c_sda_high_shape by blast
  then have "log ?w2 = log w @ (Call_i2c_write_byte data #
      concat (map (write_bit_events bus) (data_bits data)) @
      Udelay (delay bus) # Call_i2c_sda_high # es1)"
    by (simp add: log_i2c_write_byte_loop data_bits_def comp_def)
  then have "acknowledges env bus ?w2"
    by (intro acknowledges_append [OF assms] exI)
  then have "fst (i2c_read_bit env bus ?w2) = 0"
    by (rule i2c_read_bit_acknowledged)
  then have r: "fst (i2c_write_byte env bus data w) = 0"
    by (simp add: i2c_write_byte_def Let_def case_prod_beta)
  obtain es where "log (snd (i2c_write_byte env bus data w)) = log w @ Call_i2c_write_byte data # es"
    using i2c_write_byte_emits by blast
  then have "acknowledges env bus (snd (i2c_write_byte env bus data w))"
    by (intro acknowledges_append [OF assms] exI)
  with r show ?thesis ..
qed

lemma succeeds_set_register_acknowledged:
  "succeeds (acknowledges env bus) (lp5569_set_register env bus r v)"
  unfolding succeeds_def
proof (intro allI impI)
  fix w assume a: "acknowledges env bus w"
  define w1 where "w1 = i2c_start env bus (mark (Call_i2c_set_register LP5569_I2C_ADDR r v) w)"
  define ra where "ra = i2c_write_byte env bus LP5569_I2C_ADDR w1"
  define rr where "rr = i2c_write_byte env bus r (snd ra)"
  define rv where "rv = i2c_write_byte env bus v (snd rr)"
  note c = i2c_set_register_cases [OF w1_def ra_def rr_def rv_def]
  have 0: "acknowledges env bus w1"
    by (rule acknowledges_append [OF a]) (simp add: w1_def log_i2c_start)
  have 1: "fst ra = 0 \<and> acknowledges env bus (snd ra)"
    unfolding ra_def by (rule i2c_write_byte_acknowledged [OF 0])
  have 2: "fst rr = 0 \<and> acknowledges env bus (snd rr)"
    unfolding rr_def by (rule i2c_write_byte_acknowledged) (simp add: 1)
  have 3: "fst rv = 0 \<and> acknowledges env bus (snd rv)"
    unfolding rv_def by (rule i2c_write_byte_acknowledged) (simp add: 2)
  have "acknowledges env bus (i2c_stop env bus (snd rv))"
    by (rule acknowledges_append [of env bus "snd rv"]) (simp_all add: 3 log_i2c_stop)
  with 1 2 3 show "fst (lp5569_set_register env bus r v w) = 0 \<and>
      acknowledges env bus (snd (lp5569_set_register env bus r v w))"
    by (simp add: lp5569_set_register_def c)
qed

lemma succeeds_run_program_acknowledged:
  assumes "unat mux_len \<le> 32" "unat prog_len \<le> 32"
  shows "succeeds (acknowledges env bus) (lp5569_run_program env bus mux mux_len prog prog_len)"
  by (rule succeeds_run_program)
     (simp_all add: succeeds_set_register_acknowledged acknowledges_mark assms)

section \<open>The properties\<close>

text \<open>
  C1 (the code does not do this). The claim is that an error of chip initialization or of tape
  playback is always reported by \<^verbatim>\<open>lp5569_cmd\<close>. At the label
  \<^verbatim>\<open>deinit\<close> the function returns
  \<^verbatim>\<open>cmd_process_error(cmdtp, ret ? ret : ret2)\<close> only inside the branch
  taken when \<^verbatim>\<open>i2c_deinit\<close> fails; when the pins are released without
  error it falls through to \<^verbatim>\<open>return 0\<close>. The theorem runs the command
  with no chip on the bus (the data line always reads 1, every GPIO call succeeds): the bus is
  acquired, the retry loop ends with the error \<open>-1\<close> of
  \<^verbatim>\<open>lp5569_init\<close> after its fifteen attempts, and the command returns 0.
\<close>

theorem lp5569_cmd_init_error_lost:
  "i2c_init (chip (\<lambda>l. True)) w0 = (0, bus0, w_acquired) \<and>
   fst (lp5569_cmd_loop (chip (\<lambda>l. True)) bus0 0 0 w_acquired) = - 1 \<and>
   fst (lp5569_cmd (chip (\<lambda>l. True)) 0 w0) = 0"
proof -
  have l: "fst (lp5569_cmd_loop (chip (\<lambda>l. True)) bus0 0 0 w_acquired) = - 1"
    by (rule lp5569_cmd_loop_all_fail) (simp_all add: lp5569_init_nack)
  then show ?thesis
    by (simp add: i2c_init_chip lp5569_cmd_unfold [OF i2c_init_chip] lp5569_cmd_deinit_chip Let_def)
qed




text \<open>
  C3 (amended). When the address byte is not acknowledged
  \<^verbatim>\<open>i2c_set_register\<close> issues the stop condition and fails; the same
  when the register byte, and when the value byte, is not acknowledged. The value returned is
  \<open>-1\<close> in the three cases: which byte was refused is told by the line printed (and
  no byte is sent after the refused one), not by the value returned. \<open>ra\<close>,
  \<open>rr\<close> and \<open>rv\<close> are the results of the three calls of
  \<^verbatim>\<open>i2c_write_byte\<close>, each from the state the one before left.
\<close>

theorem i2c_set_register_nack:
  "let w1 = i2c_start env bus (mark (Call_i2c_set_register addr reg val) w);
       ra = i2c_write_byte env bus addr w1;
       rr = i2c_write_byte env bus reg (snd ra);
       rv = i2c_write_byte env bus val (snd rr);
       res = i2c_set_register env bus addr reg val w
   in (fst ra \<noteq> 0 \<longrightarrow>
         res = (- 1, i2c_stop env bus
            (printf ''i2c: writing address %02X failed: %d\<newline>'' [uint addr, fst ra] (snd ra))))
    \<and> (fst ra = 0 \<and> fst rr \<noteq> 0 \<longrightarrow>
         res = (- 1, i2c_stop env bus
            (printf ''i2c: Writing register %u failed: %d\<newline>'' [uint reg, fst rr] (snd rr))))
    \<and> (fst ra = 0 \<and> fst rr = 0 \<and> fst rv \<noteq> 0 \<longrightarrow>
         res = (- 1, i2c_stop env bus (printf ''Writing I2C value failed\<newline>'' [] (snd rv))))"
  unfolding Let_def
  using i2c_set_register_cases [OF refl refl refl refl, of env bus addr reg val w]
  by simp

text \<open>
  The three cases on a chip that leaves the data line high at the second, the fourth and the
  sixth sample of the line (each byte takes two samples: one in
  \<^verbatim>\<open>i2c_sda_high\<close>, one in \<^verbatim>\<open>i2c_read_bit\<close>).
\<close>

theorem i2c_set_register_nack_witness:
  "fst (i2c_write_byte (chip (sample_nr 2)) bus0 0x64 
         (i2c_start (chip (sample_nr 2)) bus0 (mark (Call_i2c_set_register 0x64 0x3F 0xFF) w0))) \<noteq> 0 \<and>
   fst (i2c_set_register (chip (sample_nr 2)) bus0 0x64 0x3F 0xFF w0) = - 1 \<and>
   console (snd (i2c_set_register (chip (sample_nr 2)) bus0 0x64 0x3F 0xFF w0)) =
     [(''i2c: writing address %02X failed: %d\<newline>'', [100, 1])] \<and>
   fst (i2c_set_register (chip (sample_nr 4)) bus0 0x64 0x3F 0xFF w0) = - 1 \<and>
   console (snd (i2c_set_register (chip (sample_nr 4)) bus0 0x64 0x3F 0xFF w0)) =
     [(''i2c: Writing register %u failed: %d\<newline>'', [63, 1])] \<and>
   fst (i2c_set_register (chip (sample_nr 6)) bus0 0x64 0x3F 0xFF w0) = - 1 \<and>
   console (snd (i2c_set_register (chip (sample_nr 6)) bus0 0x64 0x3F 0xFF w0)) =
     [(''Writing I2C value failed\<newline>'', [])]"
  using i2c_set_register_nack [of "chip (sample_nr 2)" bus0 "0x64" "0x3F" "0xFF" w0]
    i2c_set_register_nack [of "chip (sample_nr 4)" bus0 "0x64" "0x3F" "0xFF" w0]
    i2c_set_register_nack [of "chip (sample_nr 6)" bus0 "0x64" "0x3F" "0xFF" w0]
  by (simp add: Let_def i2c_write_byte_chip i2c_start_chip i2c_stop_chip mark_def printf_def
        sample_nr_def w0_def)

text \<open>
  As it is stated, the claim says that the three failures are distinct error values. A refused
  address byte and a refused value byte return the same value.
\<close>

theorem i2c_set_register_nack_same_value:
  "fst (i2c_set_register (chip (sample_nr 2)) bus0 0x64 0x3F 0xFF w0) =
   fst (i2c_set_register (chip (sample_nr 6)) bus0 0x64 0x3F 0xFF w0) \<and>
   fst (i2c_set_register (chip (sample_nr 6)) bus0 0x64 0x3F 0xFF w0) = - 1 \<and>
   filter is_write_byte (log (snd (i2c_set_register (chip (sample_nr 2)) bus0 0x64 0x3F 0xFF w0))) =
     [Call_i2c_write_byte 0x64] \<and>
   filter is_write_byte (log (snd (i2c_set_register (chip (sample_nr 6)) bus0 0x64 0x3F 0xFF w0))) =
     [Call_i2c_write_byte 0x64, Call_i2c_write_byte 0x3F, Call_i2c_write_byte 0xFF]"
  by (simp add: i2c_set_register_chip Let_def sample_nr_def w0_def)

text \<open>
  C4. On every path, success or a byte not acknowledged,
  \<^verbatim>\<open>i2c_set_register\<close> enters \<^verbatim>\<open>i2c_start\<close>
  exactly once and \<^verbatim>\<open>i2c_stop\<close> exactly once, in this order; what it
  does last is \<^verbatim>\<open>i2c_stop\<close>, whose last two pin writes set the clock
  line and then the data line to 1, so the bus is left idle.
\<close>

theorem i2c_set_register_one_start_one_stop:
  "\<exists>es w'. log (snd (i2c_set_register env bus addr reg val w)) =
       log w @ es @
         [Gpio_direction_output (scl bus) 1, Udelay (delay bus),
          Gpio_direction_output (sda bus) 1, Udelay (delay bus)] \<and>
     filter is_start_stop es = [Call_i2c_start, Call_i2c_stop] \<and>
     snd (i2c_set_register env bus addr reg val w) = i2c_stop env bus w'"
proof -
  define w1 where "w1 = i2c_start env bus (mark (Call_i2c_set_register addr reg val) w)"
  define ra where "ra = i2c_write_byte env bus addr w1"
  define rr where "rr = i2c_write_byte env bus reg (snd ra)"
  define rv where "rv = i2c_write_byte env bus val (snd rr)"
  note c = i2c_set_register_cases [OF w1_def ra_def rr_def rv_def]
  from c obtain w' where w': "snd (i2c_set_register env bus addr reg val w) = i2c_stop env bus w'"
    by (cases "fst ra \<noteq> 0"; cases "fst rr \<noteq> 0"; cases "fst rv \<noteq> 0") auto
  obtain es where es: "log (snd (i2c_set_register env bus addr reg val w)) =
       log w @ Call_i2c_set_register addr reg val # start_events bus @ es @ stop_events bus"
     "list_all (byte_event bus) es"
    using i2c_set_register_shape by blast
  have "filter is_start_stop es = []"
    using es(2) by (auto intro!: filter_none simp: is_start_stop_def elim!: byte_event.elims bus_event.elims)
  then have f: "filter is_start_stop (Call_i2c_set_register addr reg val # start_events bus @ es @
      [Call_i2c_stop, Gpio_direction_output (scl bus) 0, Udelay (delay bus),
      Gpio_direction_output (sda bus) 0, Udelay (delay bus)]) = [Call_i2c_start, Call_i2c_stop]"
    by (simp add: start_events_def is_start_stop_def)
  show ?thesis
    using es(1) f w'
    by (intro exI[of _ "Call_i2c_set_register addr reg val # start_events bus @ es @
      [Call_i2c_stop, Gpio_direction_output (scl bus) 0, Udelay (delay bus),
      Gpio_direction_output (sda bus) 0, Udelay (delay bus)]"] exI[of _ w'])
       (simp add: stop_events_def)
qed

text \<open>
  C5. For every byte, \<^verbatim>\<open>i2c_write_byte\<close> enters
  \<^verbatim>\<open>i2c_write_bit\<close> exactly eight times and then
  \<^verbatim>\<open>i2c_read_bit\<close>, which samples the acknowledgment. The arguments are
  \<^verbatim>\<open>(data << j) & 0x80\<close> for \<open>j = 0, \<dots>, 7\<close>; the
  \<open>j\<close>-th is nonzero exactly when bit \<open>7 - j\<close> of the byte is set, so
  the bits go out most significant first. For \<open>0xA5\<close> the levels are 1, 0, 1, 0, 0,
  1, 0, 1.
\<close>

theorem i2c_write_byte_msb_first:
  "\<exists>es. log (snd (i2c_write_byte env bus data w)) = log w @ es \<and>
     filter is_bit_call es =
       map (\<lambda>j. Call_i2c_write_bit (push_bit j data AND 0x80)) [0..<8] @ [Call_i2c_read_bit] \<and>
     map (\<lambda>j. push_bit j data AND 0x80 \<noteq> 0) [0..<8] = map (bit data) [7, 6, 5, 4, 3, 2, 1, 0] \<and>
     map (\<lambda>j. if push_bit j (0xA5 :: u8) AND 0x80 \<noteq> 0 then 1 else 0) [0..<8] =
       [1, 0, 1, 0, 0, 1, 0, 1 :: nat]"
proof -
  obtain es1 es2 where *: "log (snd (i2c_write_byte env bus data w)) =
      log w @ Call_i2c_write_byte data # concat (map (write_bit_events bus) (data_bits data)) @
      Udelay (delay bus) # Call_i2c_sda_high # es1 @ Call_i2c_read_bit # es2"
      "list_all (bus_event bus) es1" "list_all (bus_event bus) es2"
    using i2c_write_byte_shape by blast
  have 1: "filter is_bit_call es1 = []" "filter is_bit_call es2 = []"
    using *(2,3) by (auto intro!: filter_none elim: bus_event.elims)
  have 2: "filter is_bit_call (concat (map (write_bit_events bus) bs)) = map Call_i2c_write_bit bs"
    for bs by (induction bs) (simp_all add: write_bit_events_def)
  note 3 = data_bits_msb_first [of data]
  have 4: "map (\<lambda>j. if push_bit j (0xA5 :: u8) AND 0x80 \<noteq> 0 then 1 else 0) [0..<8] =
       [1, 0, 1, 0, 0, 1, 0, 1 :: nat]"
    by (simp add: upt_8)
  let ?es = "Call_i2c_write_byte data # concat (map (write_bit_events bus) (data_bits data)) @
      Udelay (delay bus) # Call_i2c_sda_high # es1 @ Call_i2c_read_bit # es2"
  have f: "filter is_bit_call ?es = map Call_i2c_write_bit (data_bits data) @ [Call_i2c_read_bit]"
    using 1 2 by simp
  have m: "map Call_i2c_write_bit (data_bits data) =
      map (\<lambda>j. Call_i2c_write_bit (push_bit j data AND 0x80)) [0..<8]"
    by (simp add: data_bits_def)
  show ?thesis
  proof (intro exI[of _ ?es] conjI)
    show "log (snd (i2c_write_byte env bus data w)) = log w @ ?es"
      using *(1) by simp
    show "filter is_bit_call ?es =
       map (\<lambda>j. Call_i2c_write_bit (push_bit j data AND 0x80)) [0..<8] @ [Call_i2c_read_bit]"
      unfolding f m ..
  qed (rule 3 4)+
qed

text \<open>
  C6. \<^verbatim>\<open>lp5569_write_bulk\<close> writes the bytes of the array in order to
  the registers \<open>b, b + 1, \<dots>\<close> (a register number is a byte: the sum wraps at
  256) and stops at the first write that fails. If the writes before index \<open>k\<close>
  succeed and the write at index \<open>k\<close> fails, the function returns that failure,
  \<open>-1\<close>, after exactly \<open>k + 1\<close> attempts; if it returns 0 it has made
  exactly \<open>n\<close> attempts; and one of the two is always the case. That the writes
  before index \<open>k\<close> succeed is said with the function itself, run on the first
  \<open>k\<close> bytes.
\<close>

theorem lp5569_write_bulk_short_circuit:
  assumes "unat n \<le> length buf"
  shows "\<exists>es. log (snd (lp5569_write_bulk env bus b buf n w)) = log w @ es \<and>
     (fst (lp5569_write_bulk env bus b buf n w) = 0 \<longrightarrow>
        filter is_set_register es =
          map (\<lambda>j. Call_i2c_set_register LP5569_I2C_ADDR (b + of_nat j) (buf ! j)) [0..<unat n]) \<and>
     (\<forall>k. k < n \<and> fst (lp5569_write_bulk env bus b buf k w) = 0 \<and>
          fst (lp5569_set_register env bus (b + k) (buf ! unat k)
                 (snd (lp5569_write_bulk env bus b buf k w))) \<noteq> 0 \<longrightarrow>
        fst (lp5569_write_bulk env bus b buf n w) =
          fst (lp5569_set_register env bus (b + k) (buf ! unat k)
                 (snd (lp5569_write_bulk env bus b buf k w))) \<and>
        fst (lp5569_write_bulk env bus b buf n w) = - 1 \<and>
        filter is_set_register es =
          map (\<lambda>j. Call_i2c_set_register LP5569_I2C_ADDR (b + of_nat j) (buf ! j))
            [0..<unat k + 1]) \<and>
     (fst (lp5569_write_bulk env bus b buf n w) = 0 \<or>
      (\<exists>k<n. fst (lp5569_write_bulk env bus b buf k w) = 0 \<and>
          fst (lp5569_set_register env bus (b + k) (buf ! unat k)
                 (snd (lp5569_write_bulk env bus b buf k w))) \<noteq> 0))"
proof -
  let ?W = "\<lambda>i j. map (\<lambda>j. Call_i2c_set_register LP5569_I2C_ADDR (b + of_nat j) (buf ! j)) [i..<j]"
  obtain es where es: "log (snd (lp5569_write_bulk env bus b buf n w)) = log w @ es"
      "fst (lp5569_write_bulk env bus b buf n w) = 0 \<Longrightarrow> filter is_set_register es = ?W 0 (unat n)"
    using writesE [OF writes_bulk, of env bus b buf n w] by (auto simp: bulk_writes_def)
  have P: "fst (lp5569_write_bulk env bus b buf n w) =
          fst (lp5569_set_register env bus (b + k) (buf ! unat k)
                 (snd (lp5569_write_bulk env bus b buf k w))) \<and>
        fst (lp5569_write_bulk env bus b buf n w) = - 1 \<and>
        filter is_set_register es = ?W 0 (unat k + 1)"
    if k: "k < n" "fst (lp5569_write_bulk env bus b buf k w) = 0"
      "fst (lp5569_set_register env bus (b + k) (buf ! unat k)
                 (snd (lp5569_write_bulk env bus b buf k w))) \<noteq> 0" for k
  proof -
    let ?wk = "snd (lp5569_write_bulk env bus b buf k w)"
    let ?s = "lp5569_set_register env bus (b + k) (buf ! unat k)"
    have r: "lp5569_write_bulk env bus b buf n w =
        (fst (?s ?wk), printf ''failed to write register in bulk operation: %d\<newline>''
           [fst (?s ?wk)] (snd (?s ?wk)))"
      unfolding bulk_loop_fails_at [OF k] using k(3) by (rule or_return_fail)
    obtain esk where esk: "log ?wk = log w @ esk" "filter is_set_register esk = ?W 0 (unat k)"
      using writesE [OF writes_bulk, of env bus b buf k w] k(2) by (auto simp: bulk_writes_def)
    obtain es' where es': "log (snd (?s ?wk)) =
        log ?wk @ Call_i2c_set_register LP5569_I2C_ADDR (b + k) (buf ! unat k) # es'"
        "filter is_set_register es' = []"
      unfolding lp5569_set_register_def using i2c_set_register_emits by blast
    have m: "fst (?s ?wk) = - 1"
      using k(3) i2c_set_register_shape [of env bus LP5569_I2C_ADDR "b + k" "buf ! unat k" ?wk]
      by (auto simp: lp5569_set_register_def)
    have "log w @ es = log w @ esk @ Call_i2c_set_register LP5569_I2C_ADDR (b + k) (buf ! unat k) # es'"
      using es(1) esk(1) es'(1) by (simp add: r)
    then have "es = esk @ Call_i2c_set_register LP5569_I2C_ADDR (b + k) (buf ! unat k) # es'"
      by simp
    then have "filter is_set_register es = ?W 0 (unat k + 1)"
      using esk(2) es'(2) by simp
    with r m show ?thesis by simp
  qed
  have R: "fst (lp5569_write_bulk env bus b buf n w) = 0 \<or>
      (\<exists>k<n. fst (lp5569_write_bulk env bus b buf k w) = 0 \<and>
          fst (lp5569_set_register env bus (b + k) (buf ! unat k)
                 (snd (lp5569_write_bulk env bus b buf k w))) \<noteq> 0)"
    using bulk_loop_first_failure [of env bus b buf n 0 w]
    by (auto simp: lp5569_write_bulk_def)
  show ?thesis
    using es P R by (intro exI[of _ es]) blast
qed

text \<open>
  Three bytes to a chip that refuses the address byte of the second write (the eighth sample of
  the data line): the first write succeeds, the second fails, the third is not attempted. And
  to a chip that acknowledges every byte: three writes.
\<close>

theorem lp5569_write_bulk_short_circuit_witness:
  "unat (3 :: u8) \<le> length [0x11, 0x22, 0x33 :: u8] \<and> (1 :: u8) < 3 \<and>
   fst (lp5569_write_bulk (chip (sample_nr 8)) bus0 0x50 [0x11, 0x22, 0x33] 1 w0) = 0 \<and>
   fst (lp5569_set_register (chip (sample_nr 8)) bus0 (0x50 + 1) ([0x11, 0x22, 0x33] ! unat (1 :: u8))
          (snd (lp5569_write_bulk (chip (sample_nr 8)) bus0 0x50 [0x11, 0x22, 0x33] 1 w0))) \<noteq> 0 \<and>
   fst (lp5569_write_bulk (chip (sample_nr 8)) bus0 0x50 [0x11, 0x22, 0x33] 3 w0) = - 1 \<and>
   filter is_set_register
     (log (snd (lp5569_write_bulk (chip (sample_nr 8)) bus0 0x50 [0x11, 0x22, 0x33] 3 w0))) =
     [Call_i2c_set_register 0x64 0x50 0x11, Call_i2c_set_register 0x64 0x51 0x22] \<and>
   fst (lp5569_write_bulk (chip (\<lambda>l. False)) bus0 0x50 [0x11, 0x22, 0x33] 3 w0) = 0 \<and>
   filter is_set_register
     (log (snd (lp5569_write_bulk (chip (\<lambda>l. False)) bus0 0x50 [0x11, 0x22, 0x33] 3 w0))) =
     [Call_i2c_set_register 0x64 0x50 0x11, Call_i2c_set_register 0x64 0x51 0x22,
      Call_i2c_set_register 0x64 0x52 0x33]"
proof -
  let ?env = "chip (sample_nr 8)" and ?buf = "[0x11, 0x22, 0x33 :: u8]"
  have b1: "lp5569_write_bulk ?env bus0 0x50 ?buf 1 w0 =
      (0, w0\<lparr>log := Call_i2c_set_register 0x64 0x50 0x11 # start_events bus0 @
         byte_events bus0 0x64 @ byte_events bus0 0x50 @ byte_events bus0 0x11 @ stop_events bus0\<rparr>)"
    by (simp add: lp5569_write_bulk_def lp5569_write_bulk_loop_step lp5569_write_bulk_loop_done
          or_return_def lp5569_set_register_def i2c_set_register_chip Let_def sample_nr_def
          LP5569_I2C_ADDR_def w0_def)
  have h2: "fst (lp5569_set_register ?env bus0 (0x50 + 1) (?buf ! unat (1 :: u8))
          (snd (lp5569_write_bulk ?env bus0 0x50 ?buf 1 w0))) \<noteq> 0"
    unfolding b1
    by (simp add: lp5569_set_register_def i2c_set_register_chip Let_def sample_nr_def
          LP5569_I2C_ADDR_def)
  from b1 have h1: "fst (lp5569_write_bulk ?env bus0 0x50 ?buf 1 w0) = 0" by simp
  obtain es where es: "log (snd (lp5569_write_bulk ?env bus0 0x50 ?buf 3 w0)) = log w0 @ es"
    and P: "\<And>k. k < 3 \<and> fst (lp5569_write_bulk ?env bus0 0x50 ?buf k w0) = 0 \<and>
          fst (lp5569_set_register ?env bus0 (0x50 + k) (?buf ! unat k)
                 (snd (lp5569_write_bulk ?env bus0 0x50 ?buf k w0))) \<noteq> 0 \<Longrightarrow>
        fst (lp5569_write_bulk ?env bus0 0x50 ?buf 3 w0) = - 1 \<and>
        filter is_set_register es =
          map (\<lambda>j. Call_i2c_set_register LP5569_I2C_ADDR (0x50 + of_nat j) (?buf ! j))
            [0..<unat k + 1]"
    using lp5569_write_bulk_short_circuit [of 3 ?buf ?env bus0 "0x50" w0] by auto
  have ok: "fst (lp5569_write_bulk (chip (\<lambda>l. False)) bus0 0x50 ?buf 3 w0) = 0"
    using succeedsD [OF succeeds_bulk [OF succeeds_set_register_chip] quiet_False] by blast
  obtain es' where es': "log (snd (lp5569_write_bulk (chip (\<lambda>l. False)) bus0 0x50 ?buf 3 w0)) =
      log w0 @ es'"
    and Q: "fst (lp5569_write_bulk (chip (\<lambda>l. False)) bus0 0x50 ?buf 3 w0) = 0 \<longrightarrow>
        filter is_set_register es' =
          map (\<lambda>j. Call_i2c_set_register LP5569_I2C_ADDR (0x50 + of_nat j) (?buf ! j)) [0..<unat (3 :: u8)]"
    using lp5569_write_bulk_short_circuit [of 3 ?buf "chip (\<lambda>l. False)" bus0 "0x50" w0] by auto
  from P [of 1] h1 h2 es ok es' Q show ?thesis
    by (simp add: LP5569_I2C_ADDR_def w0_def upt_rec)
qed

text \<open>
  C7. When the mux table or the program is longer than 32 bytes,
  \<^verbatim>\<open>lp5569_run_program\<close> returns \<open>-1\<close> and prints the size
  message; the log gains the entry of the function itself and nothing else: no pin is driven or
  read, no delay is taken, no bit, byte or register operation starts.
\<close>

theorem lp5569_run_program_too_large:
  assumes "unat mux_len > 32 \<or> unat prog_len > 32"
  shows "lp5569_run_program env bus mux mux_len prog prog_len w =
    (- 1, w\<lparr>log := log w @ [Call_lp5569_run_program mux mux_len prog prog_len],
            console := console w @
              [(''only 32 bytes for program size and LED mux info\<newline>'', [])]\<rparr>)"
  using assms
  by (auto simp add: lp5569_run_program_def LP5569_MAX_PROGRAM_LEN_def Let_def mark_def printf_def)

text \<open>
  A mux table of 33 bytes.
\<close>

theorem lp5569_run_program_too_large_witness:
  "(unat (33 :: u8) > 32 \<or> unat (0 :: u8) > 32) \<and>
   lp5569_run_program (chip (\<lambda>l. False)) bus0 (replicate 33 7) 33 [] 0 w0 =
    (- 1, \<lparr>log = [Call_lp5569_run_program (replicate 33 7) 33 [] 0],
          console = [(''only 32 bytes for program size and LED mux info\<newline>'', [])]\<rparr>)"
  using lp5569_run_program_too_large [of 33 0 "chip (\<lambda>l. False)" bus0 "replicate 33 7" "[]" w0]
  by (simp add: w0_def)

text \<open>
  C8. For a tape index of 2 or more, \<^verbatim>\<open>lp5569_play_tape\<close> returns
  \<open>-1\<close>, prints the message and logs its own entry only. For an index below 2 it
  enters \<^verbatim>\<open>lp5569_run_program\<close> exactly once, with the row of that index
  of \<^verbatim>\<open>led_mux_tapes\<close>, the length 32, the program
  \<^verbatim>\<open>led_prog\<close> and the length 32, and returns what that call returns.
\<close>

theorem lp5569_play_tape_index:
  "(unat tape_index \<ge> 2 \<longrightarrow>
      lp5569_play_tape env bus tape_index w =
        (- 1, w\<lparr>log := log w @ [Call_lp5569_play_tape tape_index],
                console := console w @ [(''out or range LED tape index\<newline>'', [])]\<rparr>)) \<and>
   (unat tape_index < 2 \<longrightarrow>
      (\<exists>es. log (snd (lp5569_play_tape env bus tape_index w)) =
          log w @ Call_lp5569_play_tape tape_index #
            Call_lp5569_run_program (led_mux_tapes ! unat tape_index) 32 led_prog 32 # es \<and>
        filter is_run_program es = [] \<and>
        fst (lp5569_play_tape env bus tape_index w) =
          fst (lp5569_run_program env bus (led_mux_tapes ! unat tape_index) 32 led_prog 32
                 (mark (Call_lp5569_play_tape tape_index) w))))"
proof (intro conjI impI)
  assume "2 \<le> unat tape_index"
  then show "lp5569_play_tape env bus tape_index w =
        (- 1, w\<lparr>log := log w @ [Call_lp5569_play_tape tape_index],
                console := console w @ [(''out or range LED tape index\<newline>'', [])]\<rparr>)"
    by (simp add: lp5569_play_tape_def led_mux_tapes_def LP5569_MAX_PROGRAM_LEN_def Let_def
          mark_def printf_def)
next
  assume lt: "unat tape_index < 2"
  let ?w = "mark (Call_lp5569_play_tape tape_index) w"
  let ?r = "lp5569_run_program env bus (led_mux_tapes ! unat tape_index) 32 led_prog 32 ?w"
  obtain es where es: "log (snd ?r) = log ?w @
        Call_lp5569_run_program (led_mux_tapes ! unat tape_index) 32 led_prog 32 # es"
      "list_all (i2c_event bus) es"
    using lp5569_run_program_shape [of 32 32 env bus "led_mux_tapes ! unat tape_index" led_prog ?w]
    by auto
  have f: "filter is_run_program es = []"
    using es(2) by (auto intro!: filter_none dest: i2c_event_not_run_program)
  have p: "lp5569_play_tape env bus tape_index w =
      (if fst ?r \<noteq> 0
       then (fst ?r, printf ''failed to play tape %u: %d\<newline>'' [uint tape_index, fst ?r] (snd ?r))
       else (0, snd ?r))"
    using lt
    by (simp add: lp5569_play_tape_def length_led_prog LP5569_MAX_PROGRAM_LEN_def Let_def
          case_prod_beta led_mux_tapes_def)
  show "\<exists>es. log (snd (lp5569_play_tape env bus tape_index w)) =
          log w @ Call_lp5569_play_tape tape_index #
            Call_lp5569_run_program (led_mux_tapes ! unat tape_index) 32 led_prog 32 # es \<and>
        filter is_run_program es = [] \<and>
        fst (lp5569_play_tape env bus tape_index w) = fst ?r"
    using es(1) f by (intro exI[of _ es]) (simp add: p)
qed

text \<open>
  The index 5, and the index 1 with the row of the error tape.
\<close>

theorem lp5569_play_tape_index_witness:
  "unat (5 :: u32) \<ge> 2 \<and>
   lp5569_play_tape (chip (\<lambda>l. True)) bus0 5 w0 =
     (- 1, \<lparr>log = [Call_lp5569_play_tape 5],
           console = [(''out or range LED tape index\<newline>'', [])]\<rparr>) \<and>
   unat (1 :: u32) < 2 \<and>
   (\<exists>es. log (snd (lp5569_play_tape (chip (\<lambda>l. True)) bus0 1 w0)) =
       Call_lp5569_play_tape 1 #
       Call_lp5569_run_program
         ([0x00, 0x49, 0x00, 0x49, 0x00, 0x49, 0x00, 0x49, 0x00, 0x49, 0x00, 0x49] @ replicate 20 0)
         32 led_prog 32 # es)"
  using lp5569_play_tape_index [of 5 "chip (\<lambda>l. True)" bus0 w0]
    lp5569_play_tape_index [of 1 "chip (\<lambda>l. True)" bus0 w0]
  by (auto simp add: w0_def led_mux_tapes_def)

text \<open>
  C9. \<^verbatim>\<open>lp5569_cmd\<close> attempts \<^verbatim>\<open>lp5569_init\<close> at
  most 15 times, waits 100 ms after each attempt that fails, and stops at the first attempt
  that succeeds, after which it plays the tape. When \<^verbatim>\<open>i2c_init\<close> has
  acquired the bus (otherwise nothing is attempted), with the handle \<open>bus\<close> and in
  the state \<open>w1\<close>: of the events of the command, the entries of
  \<^verbatim>\<open>lp5569_init\<close>, the delays of 100 ms and the entry of
  \<^verbatim>\<open>lp5569_play_tape\<close> are: \<open>k\<close> times an attempt and a
  delay, then an attempt and the tape, for the number \<open>k < 15\<close> of attempts that
  fail before the first one that succeeds; or 15 times an attempt and a delay, when they all
  fail. An attempt after \<open>j\<close> failures starts in the state
  \<open>retry_state\<close> applied \<open>j\<close> times. In particular, when the first two
  attempts fail and the third succeeds there are exactly three attempts, two delays, and then
  the tape.
\<close>

theorem lp5569_cmd_retries:
  "\<exists>es. log (snd (lp5569_cmd env tape_index w)) = log w @ es \<and>
     length (filter (\<lambda>e. e = Call_lp5569_init) es) \<le> 15 \<and>
     (fst (i2c_init env w) = 0 \<longrightarrow>
       (let bus = fst (snd (i2c_init env w)); w1 = snd (snd (i2c_init env w)) in
        (\<exists>k. k < 15 \<and> filter retry_event es =
                concat (replicate k [Call_lp5569_init, Udelay (100 * 1000)]) @
                [Call_lp5569_init, Call_lp5569_play_tape tape_index]
             \<or> k = 15 \<and> filter retry_event es =
                concat (replicate k [Call_lp5569_init, Udelay (100 * 1000)])) \<and>
        (\<forall>k<15. (\<forall>j<k. fst (lp5569_init env bus ((retry_state env bus ^^ j) w1)) \<noteq> 0) \<and>
             fst (lp5569_init env bus ((retry_state env bus ^^ k) w1)) = 0 \<longrightarrow>
           filter retry_event es =
             concat (replicate k [Call_lp5569_init, Udelay (100 * 1000)]) @
             [Call_lp5569_init, Call_lp5569_play_tape tape_index]) \<and>
        ((\<forall>j<15. fst (lp5569_init env bus ((retry_state env bus ^^ j) w1)) \<noteq> 0) \<longrightarrow>
           filter retry_event es =
             concat (replicate 15 [Call_lp5569_init, Udelay (100 * 1000)])) \<and>
        (fst (lp5569_init env bus w1) \<noteq> 0 \<and>
         fst (lp5569_init env bus (retry_state env bus w1)) \<noteq> 0 \<and>
         fst (lp5569_init env bus (retry_state env bus (retry_state env bus w1))) = 0 \<longrightarrow>
           filter retry_event es =
             [Call_lp5569_init, Udelay (100 * 1000), Call_lp5569_init, Udelay (100 * 1000),
              Call_lp5569_init, Call_lp5569_play_tape tape_index])))"
proof (cases "fst (i2c_init env w) = 0")
  case False
  then obtain es where "log (snd (lp5569_cmd env tape_index w)) = log w @ es"
      "filter retry_event es = []"
    using lp5569_cmd_not_acquired by blast
  with False show ?thesis
    by (intro exI[of _ es]) (simp add: filter_init_retry [of es])
next
  case True
  then have i: "i2c_init env w = (0, fst (snd (i2c_init env w)), snd (snd (i2c_init env w)))"
    by (metis prod.collapse)
  from lp5569_cmd_acquired_retries [OF i, of tape_index]
  obtain es where es: "log (snd (lp5569_cmd env tape_index w)) = log w @ es"
    and r: "(\<exists>k. k < 15 \<and> filter retry_event es =
                concat (replicate k [Call_lp5569_init, Udelay (100 * 1000)]) @
                [Call_lp5569_init, Call_lp5569_play_tape tape_index]
             \<or> k = 15 \<and> filter retry_event es =
                concat (replicate k [Call_lp5569_init, Udelay (100 * 1000)]))"
    and rest: "(\<forall>k<15. (\<forall>j<k. fst (lp5569_init env (fst (snd (i2c_init env w)))
               ((retry_state env (fst (snd (i2c_init env w))) ^^ j) (snd (snd (i2c_init env w))))) \<noteq> 0) \<and>
             fst (lp5569_init env (fst (snd (i2c_init env w)))
               ((retry_state env (fst (snd (i2c_init env w))) ^^ k) (snd (snd (i2c_init env w))))) = 0 \<longrightarrow>
           filter retry_event es =
             concat (replicate k [Call_lp5569_init, Udelay (100 * 1000)]) @
             [Call_lp5569_init, Call_lp5569_play_tape tape_index]) \<and>
        ((\<forall>j<15. fst (lp5569_init env (fst (snd (i2c_init env w)))
               ((retry_state env (fst (snd (i2c_init env w))) ^^ j) (snd (snd (i2c_init env w))))) \<noteq> 0) \<longrightarrow>
           filter retry_event es =
             concat (replicate 15 [Call_lp5569_init, Udelay (100 * 1000)])) \<and>
        (fst (lp5569_init env (fst (snd (i2c_init env w))) (snd (snd (i2c_init env w)))) \<noteq> 0 \<and>
         fst (lp5569_init env (fst (snd (i2c_init env w)))
            (retry_state env (fst (snd (i2c_init env w))) (snd (snd (i2c_init env w))))) \<noteq> 0 \<and>
         fst (lp5569_init env (fst (snd (i2c_init env w)))
            (retry_state env (fst (snd (i2c_init env w)))
               (retry_state env (fst (snd (i2c_init env w))) (snd (snd (i2c_init env w)))))) = 0 \<longrightarrow>
           filter retry_event es =
             [Call_lp5569_init, Udelay (100 * 1000), Call_lp5569_init, Udelay (100 * 1000),
              Call_lp5569_init, Call_lp5569_play_tape tape_index])"
    by blast
  from r obtain k where "k < 15 \<and> filter retry_event es =
                concat (replicate k [Call_lp5569_init, Udelay 100000]) @
                [Call_lp5569_init, Call_lp5569_play_tape tape_index]
             \<or> k = 15 \<and> filter retry_event es =
                concat (replicate k [Call_lp5569_init, Udelay 100000])"
    by auto
  then have "length (filter (\<lambda>e. e = Call_lp5569_init) (filter retry_event es)) \<le> 15"
    by (rule count_init_attempts)
  then have "length (filter (\<lambda>e. e = Call_lp5569_init) es) \<le> 15"
    by (simp only: filter_init_retry [symmetric])
  with es r rest show ?thesis
    unfolding Let_def by (intro exI[of _ es]) blast
qed

text \<open>
  A chip that answers once 200 ms of retry delays have passed: the first two attempts fail, the
  third succeeds. And no chip at all: fifteen attempts, fifteen delays, and the tape is not
  played.
\<close>

theorem lp5569_cmd_retries_witness:
  "fst (i2c_init (chip settling) w0) = 0 \<and>
   fst (snd (i2c_init (chip settling) w0)) = bus0 \<and>
   snd (snd (i2c_init (chip settling) w0)) = w_acquired \<and>
   fst (lp5569_init (chip settling) bus0 w_acquired) \<noteq> 0 \<and>
   fst (lp5569_init (chip settling) bus0 (retry_state (chip settling) bus0 w_acquired)) \<noteq> 0 \<and>
   fst (lp5569_init (chip settling) bus0
          (retry_state (chip settling) bus0 (retry_state (chip settling) bus0 w_acquired))) = 0 \<and>
   filter retry_event (log (snd (lp5569_cmd (chip settling) 0 w0))) =
     [Call_lp5569_init, Udelay 100000, Call_lp5569_init, Udelay 100000,
      Call_lp5569_init, Call_lp5569_play_tape 0] \<and>
   fst (i2c_init (chip (\<lambda>l. True)) w0) = 0 \<and>
   filter retry_event (log (snd (lp5569_cmd (chip (\<lambda>l. True)) 0 w0))) =
     concat (replicate 15 [Call_lp5569_init, Udelay 100000])"
proof -
  let ?env = "chip settling"
  let ?w2 = "retry_state ?env bus0 w_acquired"
  let ?w3 = "retry_state ?env bus0 ?w2"
  have c1: "long_delays (log w_acquired) = 0" by (simp add: w_acquired_def)
  then have c2: "long_delays (log ?w2) = 1" by (simp add: long_delays_retry_state)
  then have c3: "long_delays (log ?w3) = 2" by (simp add: long_delays_retry_state)
  have f1: "fst (lp5569_init ?env bus0 w_acquired) \<noteq> 0"
    using c1 by (subst lp5569_init_nack) (simp_all add: settling_def)
  have f2: "fst (lp5569_init ?env bus0 ?w2) \<noteq> 0"
    using c2 by (subst lp5569_init_nack) (simp_all add: settling_def)
  have s3: "fst (lp5569_init ?env bus0 ?w3) = 0"
    using c3 by (intro succeeds_init_chip quiet_settling) simp
  obtain es where es: "log (snd (lp5569_cmd ?env 0 w0)) = log w0 @ es"
    and sc: "fst (lp5569_init ?env bus0 w_acquired) \<noteq> 0 \<and>
         fst (lp5569_init ?env bus0 ?w2) \<noteq> 0 \<and> fst (lp5569_init ?env bus0 ?w3) = 0 \<longrightarrow>
           filter retry_event es =
             [Call_lp5569_init, Udelay (100 * 1000), Call_lp5569_init, Udelay (100 * 1000),
              Call_lp5569_init, Call_lp5569_play_tape 0]"
    using lp5569_cmd_retries [of ?env 0 w0] unfolding Let_def i2c_init_chip fst_conv snd_conv
    by blast
  let ?abs = "chip (\<lambda>l. True)"
  obtain es' where es': "log (snd (lp5569_cmd ?abs 0 w0)) = log w0 @ es'"
    and al: "(\<forall>j<15. fst (lp5569_init ?abs bus0
                 ((retry_state ?abs bus0 ^^ j) w_acquired)) \<noteq> 0) \<longrightarrow>
           filter retry_event es' = concat (replicate 15 [Call_lp5569_init, Udelay (100 * 1000)])"
    using lp5569_cmd_retries [of ?abs 0 w0] unfolding Let_def i2c_init_chip fst_conv snd_conv
    by blast
  have "fst (lp5569_init ?abs bus0 w) \<noteq> 0" for w
    by (simp add: lp5569_init_nack)
  with al have a15: "filter retry_event es' = concat (replicate 15 [Call_lp5569_init, Udelay 100000])"
    by simp
  have "log w0 = []" by (simp add: w0_def)
  with es sc f1 f2 s3 es' a15 show ?thesis
    by (simp add: i2c_init_chip)
qed

text \<open>
  C10. In each of the eight bit frames of \<^verbatim>\<open>i2c_write_byte\<close> the data
  line is set, through \<^verbatim>\<open>set_sda\<close>,
  \<^verbatim>\<open>gpio_write\<close> and \<^verbatim>\<open>gpio_direction_output\<close>,
  with the value \<^verbatim>\<open>(data << j) & 0x80\<close>: 128 when bit \<open>7 -
  j\<close> of the byte is set and 0 when it is not, never 1. The log of
  \<^verbatim>\<open>i2c_write_byte\<close> begins with the eight frames, each with exactly one
  write of the data line.
\<close>

theorem i2c_write_byte_data_line_values:
  "\<exists>es. log (snd (i2c_write_byte env bus data w)) =
      log w @ Call_i2c_write_byte data #
      concat (map (\<lambda>j.
        [Call_i2c_write_bit (push_bit j data AND 0x80),
         Gpio_direction_output (scl bus) 0, Udelay (delay bus),
         Gpio_direction_output (sda bus) (uint (push_bit j data AND 0x80)), Udelay (delay bus),
         Gpio_direction_output (scl bus) 1, Udelay (2 * delay bus)]) [0..<8]) @
      Udelay (delay bus) # Call_i2c_sda_high # es \<and>
    map (\<lambda>j. uint (push_bit j data AND 0x80)) [0..<8] =
      map (\<lambda>j. if bit data (7 - j) then 128 else 0) [0..<8]"
proof -
  obtain es1 es2 where *: "log (snd (i2c_write_byte env bus data w)) =
      log w @ Call_i2c_write_byte data # concat (map (write_bit_events bus) (data_bits data)) @
      Udelay (delay bus) # Call_i2c_sda_high # es1 @ Call_i2c_read_bit # es2"
    using i2c_write_byte_shape by blast
  have "map (\<lambda>j. uint (push_bit j data AND 0x80)) [0..<8] =
      map (\<lambda>j. if bit data (7 - j) then 128 else 0) [0..<8]"
    by (rule map_cong) (simp_all add: data_bit)
  with * show ?thesis
    by (intro exI[of _ "es1 @ Call_i2c_read_bit # es2"])
       (simp add: data_bits_def comp_def write_bit_events_def)
qed

end
